theory Spec2Isabelle
  imports Main "HOL-Library.Multiset"
begin

section \<open>Data model (types.ts)\<close>

datatype CardColor = RED | BLUE | GREEN | YELLOW | BLACK

datatype CardType = NUMBER | SKIP | REVERSE | DRAW_TWO | WILD | WILD_DRAW_FOUR

text \<open>
  \<^verbatim>\<open>interface Card { id: string; color: CardColor; type: CardType; value?: number }\<close>.
  The optional \<^verbatim>\<open>value\<close> is an \<open>int option\<close> (\<open>None\<close> is \<^verbatim>\<open>undefined\<close>);
  the field is called \<open>cvalue\<close> and the identifier \<open>card_id\<close>.
\<close>

record Card =
  card_id :: string
  color :: CardColor
  type :: CardType
  cvalue :: "int option"

record Player =
  player_id :: string
  name :: string
  isAi :: bool
  hand :: "Card list"
  score :: int
  avatar :: string

datatype GameStatus = LOBBY | PLAYING | ROUND_OVER | GAME_OVER

record GameState =
  deck :: "Card list"
  discardPile :: "Card list"
  players :: "Player list"
  currentPlayerIndex :: int
  direction :: int
  status :: GameStatus
  winner :: "string option"
  currentColor :: CardColor
  aiComment :: string
  isAiThinking :: bool
  roundWinner :: "string option"
  pointsWon :: "int option"

datatype GameMode = AI | ONLINE | LOCAL

datatype WittinessLevel = Friendly | Sassy | Ruthless

section \<open>Constants (constants.ts)\<close>

definition COLORS :: "CardColor list" where
  "COLORS = [RED, BLUE, GREEN, YELLOW]"

section \<open>Game logic (services/gameLogic)\<close>

subsection \<open>Rendering numbers in template strings\<close>

text \<open>JavaScript renders a non-negative integer in a template string in decimal.\<close>

definition digit_char :: "nat \<Rightarrow> char" where
  "digit_char d = char_of (48 + d)"

fun string_of_nat :: "nat \<Rightarrow> string" where
  "string_of_nat n =
     (if n < 10 then [digit_char n] else string_of_nat (n div 10) @ [digit_char (n mod 10)])"

declare string_of_nat.simps [simp del]

subsection \<open>createDeck\<close>

text \<open>
  \<^verbatim>\<open>addCard\<close> appends a card to the deck under construction and increments
  \<^verbatim>\<open>idCounter\<close>; the pair (deck, idCounter) is passed explicitly.
\<close>

type_synonym builder = "Card list \<times> nat"

definition addCard :: "CardColor \<Rightarrow> CardType \<Rightarrow> int option \<Rightarrow> builder \<Rightarrow> builder" where
  "addCard c t v b =
     (case b of (d, idCounter) \<Rightarrow>
        (d @ [\<lparr>card_id = ''card-'' @ string_of_nat idCounter, color = c, type = t, cvalue = v\<rparr>],
         idCounter + 1))"

text \<open>\<^verbatim>\<open>for (let i = 1; i <= 9; i++) { addCard(color, NUMBER, i); addCard(color, NUMBER, i); }\<close>\<close>

definition addNumbers :: "CardColor \<Rightarrow> builder \<Rightarrow> builder" where
  "addNumbers c b =
     fold (\<lambda>i. addCard c NUMBER (Some i) \<circ> addCard c NUMBER (Some i)) [1, 2, 3, 4, 5, 6, 7, 8, 9] b"

text \<open>\<^verbatim>\<open>for (let i = 0; i < 2; i++) { addCard(color, SKIP); addCard(color, REVERSE); addCard(color, DRAW_TWO); }\<close>\<close>

definition addActions :: "CardColor \<Rightarrow> builder \<Rightarrow> builder" where
  "addActions c b =
     fold (\<lambda>i::nat. addCard c DRAW_TWO None \<circ> addCard c REVERSE None \<circ> addCard c SKIP None) [0, 1] b"

definition addColor :: "CardColor \<Rightarrow> builder \<Rightarrow> builder" where
  "addColor c b = addActions c (addNumbers c (addCard c NUMBER (Some 0) b))"

text \<open>\<^verbatim>\<open>for (let i = 0; i < 4; i++) { addCard(BLACK, WILD); addCard(BLACK, WILD_DRAW_FOUR); }\<close>\<close>

definition addWilds :: "builder \<Rightarrow> builder" where
  "addWilds b =
     fold (\<lambda>i::nat. addCard BLACK WILD_DRAW_FOUR None \<circ> addCard BLACK WILD None) [0, 1, 2, 3] b"

text \<open>The deck as \<^verbatim>\<open>createDeck\<close> has built it just before it calls \<^verbatim>\<open>shuffleDeck\<close>.\<close>

definition orderedDeck :: "Card list" where
  "orderedDeck = fst (addWilds (fold addColor COLORS ([], 0)))"

subsection \<open>shuffleDeck\<close>

text \<open>
  \<^verbatim>\<open>Math.random()\<close> is modelled by a supply \<open>rnd\<close>: \<open>rnd i\<close> is the draw made at
  loop index \<open>i\<close>. \<^verbatim>\<open>Math.floor(Math.random() * (i + 1))\<close> lies in \<open>0..i\<close>; the model takes
  \<open>rnd i mod (i + 1)\<close>, which ranges over exactly these indices.
  The loop \<^verbatim>\<open>for (i = length - 1; i > 0; i--)\<close> swaps positions \<open>i\<close> and \<open>j\<close>.
\<close>

fun shuffleLoop :: "(nat \<Rightarrow> nat) \<Rightarrow> nat \<Rightarrow> 'a list \<Rightarrow> 'a list" where
  "shuffleLoop rnd 0 d = d"
| "shuffleLoop rnd (Suc i) d =
     (let j = rnd (Suc i) mod (Suc i + 1)
      in shuffleLoop rnd i (d[Suc i := d ! j, j := d ! Suc i]))"

definition shuffleDeck :: "(nat \<Rightarrow> nat) \<Rightarrow> 'a list \<Rightarrow> 'a list" where
  "shuffleDeck rnd d = shuffleLoop rnd (length d - 1) d"

definition createDeck :: "(nat \<Rightarrow> nat) \<Rightarrow> Card list" where
  "createDeck rnd = shuffleDeck rnd orderedDeck"

subsection \<open>isValidMove, canPlayAny, calculateHandScore\<close>

definition isValidMove :: "Card \<Rightarrow> Card \<Rightarrow> CardColor \<Rightarrow> bool" where
  "isValidMove c topCard curColor =
     (if color c = BLACK then True
      else if color c = curColor then True
      else if type c = type topCard then
        (if type c = NUMBER then cvalue c = cvalue topCard else True)
      else False)"

definition canPlayAny :: "Card list \<Rightarrow> Card \<Rightarrow> CardColor \<Rightarrow> bool" where
  "canPlayAny h topCard curColor = list_ex (\<lambda>c. isValidMove c topCard curColor) h"

text \<open>
  \<^verbatim>\<open>hand.reduce((total, card) => ..., 0)\<close>; \<^verbatim>\<open>card.value || 0\<close> is 0 for a
  missing value (and for the value 0).
\<close>

definition scoreStep :: "int \<Rightarrow> Card \<Rightarrow> int" where
  "scoreStep tot c =
     (if type c = NUMBER then tot + (case cvalue c of None \<Rightarrow> 0 | Some v \<Rightarrow> v)
      else if type c = SKIP \<or> type c = REVERSE \<or> type c = DRAW_TWO then tot + 20
      else if type c = WILD \<or> type c = WILD_DRAW_FOUR then tot + 50
      else tot)"

definition calculateHandScore :: "Card list \<Rightarrow> int" where
  "calculateHandScore h = foldl scoreStep 0 h"

section \<open>The application (App.tsx)\<close>

text \<open>
  The handlers of the component read the settings and the component state around
  \<^verbatim>\<open>gameState\<close>, and draw random values. \<open>Env\<close> collects what they read:
  the mode, the host flag, whether a message can be sent
  (\<^verbatim>\<open>connRef.current && connectionStatus === 'CONNECTED'\<close>), the target score, the
  personality, and the outcomes of the random choices made while one handler runs:
  \<open>mathRandom\<close> for \<^verbatim>\<open>shuffleDeck\<close>, \<open>recycleOrder\<close> for the order in which
  \<^verbatim>\<open>discardPile.sort(() => Math.random() - 0.5)\<close> leaves the recycled cards,
  \<open>randomText\<close> for the line \<^verbatim>\<open>getRandom\<close> picks from a table of remarks, and the two
  avatar addresses of a fresh online match.
  Visual effects, timers and the statistics are component state outside \<open>GameState\<close>
  and are left out. The pending wild card of the colour picker is passed to
  \<^verbatim>\<open>handleColorPick\<close> as an argument.
\<close>

record Env =
  gameMode :: GameMode
  isHost :: bool
  connected :: bool
  targetScore :: int
  wittinessLevel :: WittinessLevel
  mathRandom :: "nat \<Rightarrow> nat"
  recycleOrder :: "Card list \<Rightarrow> Card list"
  randomText :: string
  hostAvatar :: string
  clientAvatar :: string

datatype MultiplayerMessage =
    STATE_UPDATE GameState
  | PLAYER_MOVE string "CardColor option"
  | PLAYER_DRAW
  | RESTART_REQUEST

text \<open>
  A handler returns the match state it leaves (the argument of \<^verbatim>\<open>setGameState\<close>, or the
  unchanged state) and the messages it has sent. \<open>None\<close> means that it does not complete:
  it throws a \<^verbatim>\<open>TypeError\<close> on reading a property of \<^verbatim>\<open>undefined\<close>, or its loop
  does not end. Every such point lies before the first \<^verbatim>\<open>setGameState\<close> and the first
  send of the handler.
\<close>

type_synonym outcome = "(GameState \<times> MultiplayerMessage list) option"

definition sendMultiplayerMessage :: "Env \<Rightarrow> MultiplayerMessage \<Rightarrow> MultiplayerMessage list" where
  "sendMultiplayerMessage env msg = (if connected env then [msg] else [])"

subsection \<open>Array access as JavaScript has it\<close>

text \<open>\<^verbatim>\<open>players[i]\<close>: \<open>None\<close> is \<^verbatim>\<open>undefined\<close>.\<close>

definition players_at :: "Player list \<Rightarrow> int \<Rightarrow> Player option" where
  "players_at ps i = (if 0 \<le> i \<and> i < int (length ps) then Some (ps ! nat i) else None)"

text \<open>\<^verbatim>\<open>xs[xs.length - 1]\<close>\<close>

definition lastOpt :: "'a list \<Rightarrow> 'a option" where
  "lastOpt xs = (if xs = [] then None else Some (last xs))"

text \<open>\<^verbatim>\<open>xs.findIndex(p)\<close>: \<open>None\<close> is the result -1.\<close>

fun findIndex :: "('a \<Rightarrow> bool) \<Rightarrow> 'a list \<Rightarrow> nat option" where
  "findIndex P [] = None"
| "findIndex P (x # xs) =
     (if P x then Some 0 else (case findIndex P xs of None \<Rightarrow> None | Some i \<Rightarrow> Some (Suc i)))"

text \<open>\<^verbatim>\<open>xs.splice(index, 1)\<close> for an index that is not negative: nothing is removed
  beyond the end.\<close>

definition splice1 :: "nat \<Rightarrow> 'a list \<Rightarrow> 'a list" where
  "splice1 index xs = take index xs @ drop (Suc index) xs"

text \<open>
  \<^verbatim>\<open>isValidMove(card, discardPile[discardPile.length - 1], color)\<close>: on an empty pile
  the top card is \<^verbatim>\<open>undefined\<close> and reading its type throws.
\<close>

definition isValidMoveAt :: "Card \<Rightarrow> Card option \<Rightarrow> CardColor \<Rightarrow> bool option" where
  "isValidMoveAt c topCard curColor =
     (case topCard of
        Some t \<Rightarrow> Some (isValidMove c t curColor)
      | None \<Rightarrow> (if color c = BLACK \<or> color c = curColor then Some True else None))"

text \<open>The enum members are their own names as strings.\<close>

fun colorName :: "CardColor \<Rightarrow> string" where
  "colorName RED = ''RED''"
| "colorName BLUE = ''BLUE''"
| "colorName GREEN = ''GREEN''"
| "colorName YELLOW = ''YELLOW''"
| "colorName BLACK = ''BLACK''"

fun typeName :: "CardType \<Rightarrow> string" where
  "typeName NUMBER = ''NUMBER''"
| "typeName SKIP = ''SKIP''"
| "typeName REVERSE = ''REVERSE''"
| "typeName DRAW_TWO = ''DRAW_TWO''"
| "typeName WILD = ''WILD''"
| "typeName WILD_DRAW_FOUR = ''WILD_DRAW_FOUR''"

subsection \<open>Round setup\<close>

text \<open>
  \<^verbatim>\<open>while (startCard.type === WILD_DRAW_FOUR) { deck.push(startCard); startCard = deck.shift()!; }\<close>
\<close>

partial_function (option) flipStart :: "Card \<Rightarrow> Card list \<Rightarrow> (Card \<times> Card list) option" where
  "flipStart startCard d =
     (if type startCard = WILD_DRAW_FOUR then
        (case d @ [startCard] of [] \<Rightarrow> None | x # r \<Rightarrow> flipStart x r)
      else Some (startCard, d))"

declare flipStart.simps [code]

text \<open>\<^verbatim>\<open>players.map(p => ({ ...p, hand: deck.splice(0, 7) }))\<close>, the deck shrinking as it goes.\<close>

fun deal :: "Player list \<Rightarrow> Card list \<Rightarrow> Player list \<times> Card list" where
  "deal [] d = ([], d)"
| "deal (p # ps) d =
     (case deal ps (drop 7 d) of (ps', d') \<Rightarrow> (p\<lparr>hand := take 7 d\<rparr> # ps', d'))"

definition setupRound :: "Env \<Rightarrow> Player list \<Rightarrow> int \<Rightarrow> GameState option" where
  "setupRound env playersConfig startPlayerIndex =
     (case createDeck (mathRandom env) of
        [] \<Rightarrow> None
      | c0 # d0 \<Rightarrow>
         (case flipStart c0 d0 of
            None \<Rightarrow> None
          | Some (startCard, d1) \<Rightarrow>
             (case deal playersConfig d1 of
                (ps, d2) \<Rightarrow>
                  Some \<lparr>deck = d2, discardPile = [startCard], players = ps,
                        currentPlayerIndex = startPlayerIndex, direction = 1, status = PLAYING,
                        winner = None,
                        currentColor = (if color startCard = BLACK then RED else color startCard),
                        aiComment = (if wittinessLevel env = Friendly
                                     then ''Good luck! Have fun!'' else ''New round, new luck.''),
                        isAiThinking = False, roundWinner = None, pointsWon = Some 0\<rparr>)))"

definition startMultiplayerMatch :: "Env \<Rightarrow> GameState \<Rightarrow> bool \<Rightarrow> outcome" where
  "startMultiplayerMatch env gameState resetScores =
     (if \<not> isHost env then Some (gameState, [])
      else
        let ps0 = (if resetScores \<or> players gameState = [] then
                     [\<lparr>player_id = ''host'', name = ''Host (You)'', isAi = False, hand = [],
                       score = 0, avatar = hostAvatar env\<rparr>,
                      \<lparr>player_id = ''client'', name = ''Opponent'', isAi = False, hand = [],
                       score = 0, avatar = clientAvatar env\<rparr>]
                   else map (\<lambda>p. p\<lparr>hand := []\<rparr>) (players gameState))
        in (case createDeck (mathRandom env) of
              [] \<Rightarrow> None
            | c0 # d0 \<Rightarrow>
               (case flipStart c0 d0 of
                  None \<Rightarrow> None
                | Some (startCard, d1) \<Rightarrow>
                   (case deal ps0 d1 of
                      (ps, d2) \<Rightarrow>
                        let newState =
                          \<lparr>deck = d2, discardPile = [startCard], players = ps,
                           currentPlayerIndex = 0, direction = 1, status = PLAYING,
                           winner = None,
                           currentColor = (if color startCard = BLACK then RED else color startCard),
                           aiComment = ''Online Match Started!'',
                           isAiThinking = False, roundWinner = None, pointsWon = Some 0\<rparr>
                        in Some (newState, sendMultiplayerMessage env (STATE_UPDATE newState))))))"

subsection \<open>nextTurn, drawCards, handleCardEffect\<close>

definition nextTurn :: "GameState \<Rightarrow> GameState" where
  "nextTurn current =
     (let nextIndex = currentPlayerIndex current + direction current;
          nextIndex = (if nextIndex \<ge> int (length (players current)) then 0 else nextIndex);
          nextIndex = (if nextIndex < 0 then int (length (players current)) - 1 else nextIndex)
      in current\<lparr>currentPlayerIndex := nextIndex\<rparr>)"

text \<open>
  \<open>recycle\<close> is the order in which the sort with a random comparator leaves the cards
  under the top card. \<^verbatim>\<open>players[playerIndex].hand.push(...drawn)\<close> throws when there is
  no such player; it is reached only when at least one card is drawn.
\<close>

definition drawCards :: "(Card list \<Rightarrow> Card list) \<Rightarrow> int \<Rightarrow> nat \<Rightarrow> GameState \<Rightarrow> GameState option" where
  "drawCards recycle playerIndex cnt state =
     (case (if length (deck state) < cnt \<and> length (discardPile state) > 1
            then (deck state @ recycle (butlast (discardPile state)), [last (discardPile state)])
            else (deck state, discardPile state)) of
        (deck1, discard1) \<Rightarrow>
          let cardsToDraw = min cnt (length deck1) in
          if cardsToDraw > 0 then
            (case players_at (players state) playerIndex of
               None \<Rightarrow> None
             | Some p \<Rightarrow>
                 Some (state\<lparr>deck := drop cardsToDraw deck1,
                             players := (players state)
                                [nat playerIndex := p\<lparr>hand := hand p @ take cardsToDraw deck1\<rparr>],
                             discardPile := discard1\<rparr>))
          else Some (state\<lparr>deck := deck1, discardPile := discard1\<rparr>))"

text \<open>The index computed in place in both draw branches of \<^verbatim>\<open>handleCardEffect\<close>.\<close>

definition victimIndex :: "GameState \<Rightarrow> int" where
  "victimIndex newState =
     (let v = currentPlayerIndex newState + direction newState;
          v = (if v \<ge> int (length (players newState)) then 0 else v);
          v = (if v < 0 then int (length (players newState)) - 1 else v)
      in v)"

definition handleCardEffect :: "(Card list \<Rightarrow> Card list) \<Rightarrow> Card \<Rightarrow> GameState \<Rightarrow> GameState option" where
  "handleCardEffect recycle c state =
     (let newState = (if color c \<noteq> BLACK then state\<lparr>currentColor := color c\<rparr> else state) in
      case type c of
        SKIP \<Rightarrow> Some (nextTurn newState)
      | REVERSE \<Rightarrow>
          (if length (players newState) = 2 then Some (nextTurn newState)
           else Some (newState\<lparr>direction := direction newState * (- 1)\<rparr>))
      | DRAW_TWO \<Rightarrow>
          (case drawCards recycle (victimIndex newState) 2 newState of
             None \<Rightarrow> None | Some s \<Rightarrow> Some (nextTurn s))
      | WILD_DRAW_FOUR \<Rightarrow>
          (case drawCards recycle (victimIndex newState) 4 newState of
             None \<Rightarrow> None | Some s \<Rightarrow> Some (nextTurn s))
      | _ \<Rightarrow> Some newState)"

subsection \<open>finalizeMove\<close>

text \<open>
  \<^verbatim>\<open>getAiReactionToHumanMove\<close> answers the four action types with a line picked at random
  from a table of non-empty lines, and every other type with \<^verbatim>\<open>null\<close>. Its hand-size
  argument does not influence the result.
\<close>

definition getAiReactionToHumanMove :: "Env \<Rightarrow> Card \<Rightarrow> string option" where
  "getAiReactionToHumanMove env c =
     (if type c = WILD_DRAW_FOUR then Some (randomText env)
      else if type c = DRAW_TWO then Some (randomText env)
      else if type c = SKIP then Some (randomText env)
      else if type c = REVERSE then Some (randomText env)
      else None)"

text \<open>
  The block "Reaction Logic" of \<^verbatim>\<open>finalizeMove\<close>. In AI mode it reads
  \<^verbatim>\<open>newState.players[1].hand.length\<close>, which throws when there is no second player.
\<close>

definition playComment :: "Env \<Rightarrow> Card \<Rightarrow> int \<Rightarrow> Player \<Rightarrow> GameState \<Rightarrow> GameState option" where
  "playComment env c playerIndex player newState =
     (if gameMode env = AI \<and> \<not> isAi player then
        (case players_at (players newState) 1 of
           None \<Rightarrow> None
         | Some ai \<Rightarrow>
            (case getAiReactionToHumanMove env c of
               None \<Rightarrow> Some newState
             | Some reaction \<Rightarrow>
                 Some (if reaction \<noteq> [] then newState\<lparr>aiComment := reaction\<rparr> else newState)))
      else if gameMode env = ONLINE then
        Some (newState\<lparr>aiComment := ''Player '' @ (if playerIndex = 0 then ''1'' else ''2'')
                  @ '' played '' @ colorName (color c) @ '' '' @ typeName (type c)\<rparr>)
      else if gameMode env = LOCAL then
        Some (newState\<lparr>aiComment := name player
                  @ '' played '' @ colorName (color c) @ '' '' @ typeName (type c)\<rparr>)
      else Some newState)"

text \<open>
  \<^verbatim>\<open>newState.players.filter((_, i) => i !== playerIndex)
     .reduce((sum, p) => sum + calculateHandScore(p.hand), 0)\<close>
\<close>

definition opponentPoints :: "int \<Rightarrow> Player list \<Rightarrow> int" where
  "opponentPoints playerIndex ps =
     foldl (\<lambda>acc p. acc + calculateHandScore (hand p)) 0
       (map snd (filter (\<lambda>(i, p). int i \<noteq> playerIndex) (zip [0..<length ps] ps)))"

text \<open>The block "Win / Round Over Logic", entered when the hand is empty after the play.\<close>

definition finishRound :: "Env \<Rightarrow> int \<Rightarrow> Player \<Rightarrow> GameState \<Rightarrow> GameState" where
  "finishRound env playerIndex player newState =
     (let pts = opponentPoints playerIndex (players newState);
          winnerPlayer = player\<lparr>score := score player + pts\<rparr>;
          isMatchOver = (score winnerPlayer \<ge> targetScore env);
          s1 = newState\<lparr>players := (players newState)[nat playerIndex := winnerPlayer],
                        roundWinner := Some (name player), pointsWon := Some pts\<rparr>
      in if isMatchOver
         then s1\<lparr>status := GAME_OVER, winner := Some (name player), aiComment := ''Game Over!''\<rparr>
         else s1\<lparr>status := ROUND_OVER, aiComment := ''Round Over!''\<rparr>)"

text \<open>
  \<^verbatim>\<open>finalizeMove(card, index, chosenWildColor?, stateOverride?)\<close>. \<open>gameState\<close> is the
  component state the handler sees. A follower in online mode only sends the move.
  Otherwise the card is appended to the discard pile, position \<open>index\<close> is spliced out of
  the hand of the current player, and either the round ends (empty hand) or the effect of
  the card is resolved and the turn advances.
\<close>

definition finalizeMove ::
  "Env \<Rightarrow> GameState \<Rightarrow> Card \<Rightarrow> nat \<Rightarrow> CardColor option \<Rightarrow> GameState option \<Rightarrow> outcome" where
  "finalizeMove env gameState c index chosenWildColor stateOverride =
     (if gameMode env = ONLINE \<and> \<not> isHost env then
        Some (gameState, sendMultiplayerMessage env (PLAYER_MOVE (card_id c) chosenWildColor))
      else
        let currentState = (case stateOverride of Some s \<Rightarrow> s | None \<Rightarrow> gameState);
            playerIndex = currentPlayerIndex currentState
        in case players_at (players currentState) playerIndex of
             None \<Rightarrow> None
           | Some player0 \<Rightarrow>
              let player = player0\<lparr>hand := splice1 index (hand player0)\<rparr>;
                  s1 = currentState\<lparr>players := (players currentState)[nat playerIndex := player],
                                    discardPile := discardPile currentState @ [c]\<rparr>;
                  s2 = (case chosenWildColor of
                          Some k \<Rightarrow> if color c = BLACK then s1\<lparr>currentColor := k\<rparr> else s1
                        | None \<Rightarrow> s1)
              in case playComment env c playerIndex player s2 of
                   None \<Rightarrow> None
                 | Some s3 \<Rightarrow>
                    if hand player = [] then
                      let newState = finishRound env playerIndex player s3
                      in Some (newState,
                               if gameMode env = ONLINE \<and> isHost env
                               then sendMultiplayerMessage env (STATE_UPDATE newState) else [])
                    else
                      (case handleCardEffect (recycleOrder env) c s3 of
                         None \<Rightarrow> None
                       | Some s4 \<Rightarrow>
                          let newState = nextTurn s4
                          in Some (newState,
                                   if gameMode env = ONLINE \<and> isHost env
                                   then sendMultiplayerMessage env (STATE_UPDATE newState) else [])))"

subsection \<open>Plays and draws of the players\<close>

definition isMyTurn :: "Env \<Rightarrow> GameState \<Rightarrow> bool" where
  "isMyTurn env gameState =
     ((gameMode env = AI \<and> currentPlayerIndex gameState = 0) \<or>
      (gameMode env = ONLINE \<and> isHost env \<and> currentPlayerIndex gameState = 0) \<or>
      (gameMode env = ONLINE \<and> \<not> isHost env \<and> currentPlayerIndex gameState = 1) \<or>
      gameMode env = LOCAL)"

text \<open>
  \<^verbatim>\<open>handleHumanPlay\<close>. For a wild card it only opens the colour picker
  (\<^verbatim>\<open>setPendingWildCard\<close>), which leaves the match state as it is.
\<close>

definition handleHumanPlay :: "Env \<Rightarrow> GameState \<Rightarrow> Card \<Rightarrow> nat \<Rightarrow> outcome" where
  "handleHumanPlay env gameState c index =
     (if status gameState \<noteq> PLAYING then Some (gameState, [])
      else if \<not> isMyTurn env gameState then Some (gameState, [])
      else case isValidMoveAt c (lastOpt (discardPile gameState)) (currentColor gameState) of
             None \<Rightarrow> None
           | Some valid \<Rightarrow>
               if \<not> valid then Some (gameState, [])
               else if color c = BLACK then Some (gameState, [])
               else finalizeMove env gameState c index None None)"

definition handleHumanDraw :: "Env \<Rightarrow> GameState \<Rightarrow> outcome" where
  "handleHumanDraw env gameState =
     (if status gameState \<noteq> PLAYING then Some (gameState, [])
      else if \<not> isMyTurn env gameState then Some (gameState, [])
      else if gameMode env = ONLINE \<and> \<not> isHost env then
        Some (gameState, sendMultiplayerMessage env PLAYER_DRAW)
      else case drawCards (recycleOrder env) (currentPlayerIndex gameState) 1 gameState of
             None \<Rightarrow> None
           | Some s1 \<Rightarrow>
              (case (if gameMode env = AI then Some (randomText env)
                     else (case players_at (players gameState) (currentPlayerIndex gameState) of
                             None \<Rightarrow> None
                           | Some p \<Rightarrow> Some (name p @ '' drew a card.''))) of
                 None \<Rightarrow> None
               | Some comment \<Rightarrow>
                  let newState = nextTurn (s1\<lparr>aiComment := comment\<rparr>)
                  in Some (newState,
                           if gameMode env = ONLINE \<and> isHost env
                           then sendMultiplayerMessage env (STATE_UPDATE newState) else [])))"

text \<open>\<^verbatim>\<open>handleMultiplayerDraw(playerIndex)\<close>, called by the host for the follower.\<close>

definition handleMultiplayerDraw :: "Env \<Rightarrow> GameState \<Rightarrow> nat \<Rightarrow> outcome" where
  "handleMultiplayerDraw env gameState playerIndex =
     (case drawCards (recycleOrder env) (int playerIndex) 1 gameState of
        None \<Rightarrow> None
      | Some s1 \<Rightarrow>
         let newState = nextTurn (s1\<lparr>aiComment :=
               ''Player '' @ string_of_nat (playerIndex + 1) @ '' drew a card.''\<rparr>)
         in Some (newState, sendMultiplayerMessage env (STATE_UPDATE newState)))"

text \<open>
  The colour a computer player names for a wild card:
  \<^verbatim>\<open>COLORS.reduce((best, current) => countCurrent > countBest ? current : best, COLORS[0])\<close>.
\<close>

definition pickWildColor :: "Card list \<Rightarrow> CardColor" where
  "pickWildColor h =
     foldl (\<lambda>best current.
              if length (filter (\<lambda>c. color c = current) h) > length (filter (\<lambda>c. color c = best) h)
              then current else best)
       (hd COLORS) COLORS"

text \<open>
  \<^verbatim>\<open>handleAiDraw\<close>: the computer draws one card and plays the last card of its hand at
  once when that card is legal. Reading the hand of a missing player, or the colour of a
  missing last card, throws.
\<close>

definition handleAiDraw :: "Env \<Rightarrow> GameState \<Rightarrow> outcome" where
  "handleAiDraw env gameState =
     (case drawCards (recycleOrder env) (currentPlayerIndex gameState) 1 gameState of
        None \<Rightarrow> None
      | Some stateWithDraw \<Rightarrow>
         (case players_at (players stateWithDraw) (currentPlayerIndex gameState) of
            None \<Rightarrow> None
          | Some player \<Rightarrow>
             (case lastOpt (hand player) of
                None \<Rightarrow> None
              | Some drawnCard \<Rightarrow>
                 (case isValidMoveAt drawnCard (lastOpt (discardPile stateWithDraw))
                         (currentColor stateWithDraw) of
                    None \<Rightarrow> None
                  | Some valid \<Rightarrow>
                     if valid then
                       finalizeMove env gameState drawnCard (length (hand player) - 1)
                         (if color drawnCard = BLACK then Some (pickWildColor (hand player)) else None)
                         (Some (stateWithDraw\<lparr>aiComment := randomText env\<rparr>))
                     else Some (nextTurn (stateWithDraw\<lparr>aiComment := randomText env\<rparr>), [])))))"

subsection \<open>The colour picker\<close>

text \<open>
  \<^verbatim>\<open>handleColorPick(color)\<close>, the handler of the colour picker, which is shown in the
  playing view whenever \<^verbatim>\<open>pendingWildCard\<close> is not null. It looks the pending card up
  by id in the hand of the player in front of the screen and passes it with the position
  found to \<^verbatim>\<open>finalizeMove\<close>; it asks neither for the status nor for the turn. When
  the id is not in that hand it only resets the pending card.
\<close>

definition handleColorPick :: "Env \<Rightarrow> GameState \<Rightarrow> Card option \<Rightarrow> CardColor \<Rightarrow> outcome" where
  "handleColorPick env gameState pendingWildCard k =
     (case pendingWildCard of
        None \<Rightarrow> Some (gameState, [])
      | Some pending \<Rightarrow>
          let myIndex = (if gameMode env = ONLINE \<and> \<not> isHost env then 1
                         else if gameMode env = LOCAL then currentPlayerIndex gameState else 0)
          in case players_at (players gameState) myIndex of
               None \<Rightarrow> None
             | Some me \<Rightarrow>
                (case findIndex (\<lambda>c. card_id c = card_id pending) (hand me) of
                   None \<Rightarrow> Some (gameState, [])
                 | Some index \<Rightarrow> finalizeMove env gameState pending index (Some k) None))"

text \<open>
  Whether \<^verbatim>\<open>finalizeMove\<close> reaches its \<^verbatim>\<open>setPendingWildCard(null)\<close>: the statement
  stands after the effect resolution, so it is reached neither on the early return of a
  follower, nor on the return that closes the block "Win / Round Over Logic", nor when
  the handler throws. \<^verbatim>\<open>setupRound\<close> does not assign the pending card.
\<close>

definition clearsPendingWildCard ::
  "Env \<Rightarrow> GameState \<Rightarrow> Card \<Rightarrow> nat \<Rightarrow> CardColor option \<Rightarrow> GameState option \<Rightarrow> bool" where
  "clearsPendingWildCard env gameState c index chosenWildColor stateOverride =
     (if gameMode env = ONLINE \<and> \<not> isHost env then False
      else
        let currentState = (case stateOverride of Some s \<Rightarrow> s | None \<Rightarrow> gameState)
        in case players_at (players currentState) (currentPlayerIndex currentState) of
             None \<Rightarrow> False
           | Some player0 \<Rightarrow>
               if splice1 index (hand player0) = [] then False
               else finalizeMove env gameState c index chosenWildColor stateOverride \<noteq> None)"

subsection \<open>Messages from the peer\<close>

text \<open>
  The listener that \<^verbatim>\<open>setupConnectionListeners\<close> installs for \<^verbatim>\<open>'data'\<close>. The
  follower is always the player at index 1. The listener runs with the values of the
  render that installed it; where it returns the state it saw and no message, it has
  called neither \<^verbatim>\<open>setGameState\<close> nor \<^verbatim>\<open>send\<close>.
\<close>

definition onData :: "Env \<Rightarrow> GameState \<Rightarrow> MultiplayerMessage \<Rightarrow> outcome" where
  "onData env gameState msg =
     (case msg of
        STATE_UPDATE payload \<Rightarrow> Some (payload, [])
      | PLAYER_MOVE cardId wildColor \<Rightarrow>
          (if isHost env then
             (case players_at (players gameState) 1 of
                None \<Rightarrow> None
              | Some player \<Rightarrow>
                 (case findIndex (\<lambda>c. card_id c = cardId) (hand player) of
                    None \<Rightarrow> Some (gameState, [])
                  | Some cardIndex \<Rightarrow>
                      finalizeMove env gameState (hand player ! cardIndex) cardIndex wildColor None))
           else Some (gameState, []))
      | PLAYER_DRAW \<Rightarrow>
          (if isHost env then handleMultiplayerDraw env gameState 1 else Some (gameState, []))
      | RESTART_REQUEST \<Rightarrow>
          (if isHost env then startMultiplayerMatch env gameState False else Some (gameState, [])))"

subsection \<open>Connection set-up and the values a listener sees\<close>











section \<open>Cards in play\<close>

definition allCards :: "GameState \<Rightarrow> Card list" where
  "allCards s = deck s @ discardPile s @ concat (map hand (players s))"

text \<open>What the JavaScript engine guarantees of a sort: the same elements, in some order.\<close>

definition reorders :: "(Card list \<Rightarrow> Card list) \<Rightarrow> bool" where
  "reorders f = (\<forall>xs. mset (f xs) = mset xs)"

section \<open>The specification's wording, for comparison with the code\<close>

text \<open>The face of a card: what the composition of a deck counts.\<close>

definition face :: "Card \<Rightarrow> CardColor \<times> CardType \<times> int option" where
  "face c = (color c, type c, cvalue c)"

text \<open>
  Per colour: one 0, two each of 1 to 9, two each of skip, reverse and draw-two.
\<close>

definition specColorFaces :: "CardColor \<Rightarrow> (CardColor \<times> CardType \<times> int option) list" where
  "specColorFaces k =
     [(k, NUMBER, Some 0)]
     @ concat (map (\<lambda>i. replicate 2 (k, NUMBER, Some i)) [1, 2, 3, 4, 5, 6, 7, 8, 9])
     @ replicate 2 (k, SKIP, None) @ replicate 2 (k, REVERSE, None)
     @ replicate 2 (k, DRAW_TWO, None)"

text \<open>The four colours, plus four wild and four wild-draw-four cards without colour.\<close>

definition specComposition :: "(CardColor \<times> CardType \<times> int option) multiset" where
  "specComposition =
     mset (concat (map specColorFaces [RED, BLUE, GREEN, YELLOW])
           @ replicate 4 (BLACK, WILD, None) @ replicate 4 (BLACK, WILD_DRAW_FOUR, None))"

text \<open>
  Number cards contribute their face value; skip, reverse and draw-two 20 each; wild and
  wild-draw-four 50 each.
\<close>

definition specCardPoints :: "Card \<Rightarrow> int" where
  "specCardPoints c =
     (case type c of
        NUMBER \<Rightarrow> (case cvalue c of Some v \<Rightarrow> v | None \<Rightarrow> 0)
      | SKIP \<Rightarrow> 20 | REVERSE \<Rightarrow> 20 | DRAW_TWO \<Rightarrow> 20
      | WILD \<Rightarrow> 50 | WILD_DRAW_FOUR \<Rightarrow> 50)"

section \<open>Example states\<close>

text \<open>Small concrete cards, players and states on which the properties are instantiated.\<close>

definition demoCard :: "nat \<Rightarrow> CardColor \<Rightarrow> CardType \<Rightarrow> int option \<Rightarrow> Card" where
  "demoCard n k t v = \<lparr>card_id = ''card-'' @ string_of_nat n, color = k, type = t, cvalue = v\<rparr>"

definition demoPlayer :: "string \<Rightarrow> Card list \<Rightarrow> Player" where
  "demoPlayer n h = \<lparr>player_id = n, name = n, isAi = False, hand = h, score = 0, avatar = []\<rparr>"

definition demoState :: "Card list \<Rightarrow> Card list \<Rightarrow> Player list \<Rightarrow> int \<Rightarrow> CardColor \<Rightarrow> GameState" where
  "demoState d pile ps i k =
     \<lparr>deck = d, discardPile = pile, players = ps, currentPlayerIndex = i, direction = 1,
      status = PLAYING, winner = None, currentColor = k, aiComment = [],
      isAiThinking = False, roundWinner = None, pointsWon = Some 0\<rparr>"

definition demoEnv :: "GameMode \<Rightarrow> bool \<Rightarrow> Env" where
  "demoEnv m h =
     \<lparr>gameMode = m, isHost = h, connected = True, targetScore = 500, wittinessLevel = Sassy,
      mathRandom = (\<lambda>i. 0), recycleOrder = rev, randomText = ''No u.'',
      hostAvatar = [], clientAvatar = []\<rparr>"

text \<open>One card in the deck, five on the discard pile.\<close>

definition shortDeckState :: GameState where
  "shortDeckState =
     demoState [demoCard 0 RED NUMBER (Some 0)]
        [demoCard 1 RED NUMBER (Some 1), demoCard 2 RED NUMBER (Some 2),
         demoCard 3 BLUE NUMBER (Some 2), demoCard 4 BLUE SKIP None, demoCard 5 GREEN SKIP None]
        [demoPlayer ''p1'' [demoCard 6 RED REVERSE None], demoPlayer ''p2'' []] 0 GREEN"

text \<open>The first player holds one last card; the second player holds 77 points.\<close>

definition lastCardState :: GameState where
  "lastCardState =
     demoState [demoCard 9 GREEN NUMBER (Some 9), demoCard 8 GREEN NUMBER (Some 8)]
        [demoCard 1 RED NUMBER (Some 1)]
        [demoPlayer ''p1'' [demoCard 2 RED DRAW_TWO None],
         demoPlayer ''p2'' [demoCard 3 BLUE SKIP None, demoCard 4 BLACK WILD None,
                           demoCard 5 GREEN NUMBER (Some 7)]] 0 RED"

text \<open>The last card of the first player is a wild draw four.\<close>

definition lastWildState :: GameState where
  "lastWildState =
     demoState [demoCard 9 GREEN NUMBER (Some 9), demoCard 8 GREEN NUMBER (Some 8)]
        [demoCard 1 RED NUMBER (Some 1)]
        [demoPlayer ''p1'' [demoCard 2 BLACK WILD_DRAW_FOUR None],
         demoPlayer ''p2'' [demoCard 3 BLUE SKIP None]] 0 RED"

text \<open>An online match seen by the host: it is the follower's turn, on a blue skip.\<close>

definition onlineState :: GameState where
  "onlineState =
     (demoState [demoCard 9 GREEN NUMBER (Some 9), demoCard 8 GREEN NUMBER (Some 8)]
        [demoCard 1 RED SKIP None, demoCard 2 BLUE SKIP None]
        [demoPlayer ''host'' [demoCard 3 GREEN NUMBER (Some 4), demoCard 4 RED NUMBER (Some 2)],
         demoPlayer ''client'' [demoCard 7 RED NUMBER (Some 7), demoCard 6 GREEN NUMBER (Some 2)]]
        1 BLUE)"

text \<open>The first player holds a draw two; three cards are left in the deck.\<close>

definition drawTwoState :: GameState where
  "drawTwoState =
     demoState [demoCard 9 GREEN NUMBER (Some 9), demoCard 8 GREEN NUMBER (Some 8),
                demoCard 6 BLUE NUMBER (Some 6)]
        [demoCard 1 RED NUMBER (Some 1)]
        [demoPlayer ''p1'' [demoCard 2 RED DRAW_TWO None, demoCard 3 GREEN NUMBER (Some 4)],
         demoPlayer ''p2'' [demoCard 7 BLUE NUMBER (Some 7)]] 0 RED"

text \<open>The same hands after the deck has been drawn empty: one card lies under the play.\<close>

definition emptyDeckState :: GameState where
  "emptyDeckState =
     demoState []
        [demoCard 1 RED NUMBER (Some 3)]
        [demoPlayer ''p1'' [demoCard 2 RED DRAW_TWO None, demoCard 3 RED NUMBER (Some 5)],
         demoPlayer ''p2'' [demoCard 7 BLUE NUMBER (Some 7)]] 0 RED"

text \<open>
  The second round of a match against the computer, which starts: the shuffle puts the
  wild card with id card-100 into the hand of the human player. The human player has won
  the first round with that wild card.
\<close>

definition aiRoundEnv :: Env where
  "aiRoundEnv = (demoEnv AI False)\<lparr>mathRandom := (\<lambda>i. if i = 100 then 1 else i)\<rparr>"

definition aiRoundPlayers :: "Player list" where
  "aiRoundPlayers =
     [\<lparr>player_id = ''p1'', name = ''You'', isAi = False, hand = [], score = 20, avatar = []\<rparr>,
      \<lparr>player_id = ''p2'', name = ''Gemini'', isAi = True, hand = [], score = 0, avatar = []\<rparr>]"

definition leftOverWild :: Card where
  "leftOverWild = \<lparr>card_id = ''card-100'', color = BLACK, type = WILD, cvalue = None\<rparr>"

section \<open>Properties of the game logic\<close>

subsection \<open>The move validator\<close>

text \<open>
  Claim C2. A card is a valid move exactly when its colour is the wild pseudo-colour
  BLACK, or its colour is the active colour, or its type is the type of the top card,
  where two number cards must also carry the same value and for every other type the
  equal type is enough.
\<close>

theorem isValidMove_iff:
  "isValidMove c t k \<longleftrightarrow>
     (color c = BLACK \<or> color c = k \<or>
      (type c = type t \<and> (if type c = NUMBER then cvalue c = cvalue t else True)))"
  by (simp add: isValidMove_def)

text \<open>
  A skip on a skip of another colour, a wild card and a 7 on a 7 are valid; a blue 5 on
  a red 7 with green as the active colour is not.
\<close>

theorem isValidMove_iff_witness:
  "isValidMove (demoCard 1 BLUE SKIP None) (demoCard 2 RED SKIP None) GREEN
   \<and> isValidMove (demoCard 5 BLACK WILD None) (demoCard 4 RED NUMBER (Some 7)) GREEN
   \<and> isValidMove (demoCard 3 BLUE NUMBER (Some 7)) (demoCard 4 RED NUMBER (Some 7)) GREEN
   \<and> isValidMove (demoCard 3 GREEN NUMBER (Some 5)) (demoCard 4 RED NUMBER (Some 7)) GREEN
   \<and> \<not> isValidMove (demoCard 3 BLUE NUMBER (Some 5)) (demoCard 4 RED NUMBER (Some 7)) GREEN"
  by (simp add: isValidMove_iff demoCard_def)

subsection \<open>The deck builder\<close>

lemma mset_shuffleLoop: "i < length d \<Longrightarrow> mset (shuffleLoop rnd i d) = mset d"
proof (induction i arbitrary: d)
  case 0
  then show ?case by simp
next
  case (Suc i)
  let ?j = "rnd (Suc i) mod (Suc i + 1)"
  have "?j < Suc (Suc i)" by simp
  then have j: "?j < length d" using Suc.prems by linarith
  have "mset (d[Suc i := d ! ?j, ?j := d ! Suc i]) = mset d"
    using j Suc.prems by (rule mset_swap)
  moreover have "i < length (d[Suc i := d ! ?j, ?j := d ! Suc i])" using Suc.prems by simp
  ultimately show ?case using Suc.IH by (simp add: Let_def)
qed

lemma mset_shuffleDeck: "mset (shuffleDeck rnd d) = mset d"
proof (cases d)
  case Nil
  then show ?thesis by (simp add: shuffleDeck_def)
next
  case (Cons x xs)
  then show ?thesis by (simp add: shuffleDeck_def mset_shuffleLoop)
qed

lemma mset_createDeck: "mset (createDeck rnd) = mset orderedDeck"
  by (simp add: createDeck_def mset_shuffleDeck)

lemma length_orderedDeck: "length orderedDeck = 108"
  by code_simp

lemma distinct_ids_orderedDeck: "distinct (map card_id orderedDeck)"
  by code_simp

lemma faces_orderedDeck: "mset (map face orderedDeck) = specComposition"
  by code_simp

text \<open>
  Claim C3. Whatever the random draws of the shuffle, the deck that createDeck returns
  has exactly 108 cards, their ids are pairwise distinct, and its cards are, as a
  multiset of (colour, type, value), exactly the composition the specification lists.
\<close>

theorem createDeck_composition:
  "length (createDeck rnd) = 108 \<and> distinct (map card_id (createDeck rnd)) \<and>
   mset (map face (createDeck rnd)) = specComposition"
proof -
  have m: "mset (createDeck rnd) = mset orderedDeck"
    by (rule mset_createDeck)
  have "length (createDeck rnd) = length orderedDeck"
    using m by (rule mset_eq_length)
  then have l: "length (createDeck rnd) = 108"
    by (simp only: length_orderedDeck)
  have "mset (map card_id (createDeck rnd)) = mset (map card_id orderedDeck)"
    using m by (metis mset_map)
  then have d: "distinct (map card_id (createDeck rnd))"
    using distinct_ids_orderedDeck by (metis mset_eq_imp_distinct_iff)
  have f: "mset (map face (createDeck rnd)) = specComposition"
    using m faces_orderedDeck by (metis mset_map)
  show ?thesis using l d f by blast
qed

section \<open>Properties of the application\<close>

subsection \<open>Auxiliary facts\<close>

lemma reorders_length: "reorders f \<Longrightarrow> length (f xs) = length xs"
  unfolding reorders_def by (metis mset_eq_length)

lemma players_at_SomeD:
  "players_at ps i = Some p \<Longrightarrow> 0 \<le> i \<and> nat i < length ps \<and> ps ! nat i = p"
  by (auto simp: players_at_def split: if_splits)

text \<open>Unfolding the example states and the operations on concrete inputs.\<close>

lemmas demo_defs = demoState_def demoPlayer_def demoEnv_def demoCard_def

lemmas play_defs = finalizeMove_def playComment_def finishRound_def opponentPoints_def
  calculateHandScore_def scoreStep_def handleCardEffect_def drawCards_def nextTurn_def
  victimIndex_def players_at_def splice1_def sendMultiplayerMessage_def
  getAiReactionToHumanMove_def Let_def

lemma findIndex_None: "findIndex P xs = None \<longleftrightarrow> (\<forall>x\<in>set xs. \<not> P x)"
  by (induction xs) (auto split: option.splits)

lemma findIndex_Some:
  "findIndex P xs = Some i \<Longrightarrow> i < length xs \<and> P (xs ! i)"
  by (induction xs arbitrary: i) (auto split: option.splits if_splits)

lemma digit_char_values:
  "digit_char 0 = CHR ''0''" "digit_char 1 = CHR ''1''" "digit_char 2 = CHR ''2''"
  "digit_char 3 = CHR ''3''" "digit_char 4 = CHR ''4''" "digit_char 5 = CHR ''5''"
  "digit_char 6 = CHR ''6''" "digit_char 7 = CHR ''7''" "digit_char 8 = CHR ''8''"
  "digit_char 9 = CHR ''9''"
  by code_simp+

lemmas id_defs = string_of_nat.simps digit_char_values

lemma nextTurn_fields [simp]:
  "deck (nextTurn s) = deck s" "discardPile (nextTurn s) = discardPile s"
  "players (nextTurn s) = players s" "direction (nextTurn s) = direction s"
  "currentColor (nextTurn s) = currentColor s" "status (nextTurn s) = status s"
  by (simp_all add: nextTurn_def Let_def)

subsection \<open>Drawing from a short deck\<close>

text \<open>
  Claim C7. A draw of n cards for an existing player, in a state whose deck holds fewer
  than n cards and whose discard pile holds more than one card, completes without an
  error: every discard card but the top one joins the deck (in the order the random sort
  leaves them, the same cards as a multiset), the discard pile keeps only its former top
  card, and the player receives the first k cards of the enlarged deck, where k is n or,
  if fewer are available, the number of cards available. With 1 card in the deck, 5 on
  the pile and n = 3 this gives k = 3.
\<close>

theorem drawCards_reshuffle:
  assumes short: "length (deck s) < n"
    and pile: "1 < length (discardPile s)"
    and pl: "players_at (players s) p = Some player"
    and re: "reorders recycle"
  shows "let pool = deck s @ recycle (butlast (discardPile s));
             k = min n (length (deck s) + length (discardPile s) - 1)
         in drawCards recycle p n s =
              Some (s\<lparr>deck := drop k pool,
                      players := (players s)[nat p := player\<lparr>hand := hand player @ take k pool\<rparr>],
                      discardPile := [last (discardPile s)]\<rparr>)
            \<and> mset pool = mset (deck s) + mset (butlast (discardPile s))
            \<and> length (take k pool) = k"
proof -
  let ?pool = "deck s @ recycle (butlast (discardPile s))"
  have len: "length ?pool = length (deck s) + length (discardPile s) - 1"
    using pile by (simp add: reorders_length[OF re])
  have pos: "0 < min n (length ?pool)"
    using short pile len by simp
  have m: "mset (recycle (butlast (discardPile s))) = mset (butlast (discardPile s))"
    using re by (simp add: reorders_def)
  show ?thesis
    using short pile pl pos m len
    by (simp add: drawCards_def Let_def)
qed

theorem drawCards_reshuffle_witness:
  "drawCards rev 0 3 shortDeckState
   = Some (demoState [demoCard 2 RED NUMBER (Some 2), demoCard 1 RED NUMBER (Some 1)]
        [demoCard 5 GREEN SKIP None]
        [demoPlayer ''p1'' [demoCard 6 RED REVERSE None, demoCard 0 RED NUMBER (Some 0),
            demoCard 4 BLUE SKIP None, demoCard 3 BLUE NUMBER (Some 2)], demoPlayer ''p2'' []] 0 GREEN)"
proof -
  have a: "length (deck shortDeckState) < 3"
    by (simp add: shortDeckState_def demoState_def)
  have b: "1 < length (discardPile shortDeckState)"
    by (simp add: shortDeckState_def demoState_def)
  have c: "players_at (players shortDeckState) 0 = Some (demoPlayer ''p1'' [demoCard 6 RED REVERSE None])"
    by (simp add: shortDeckState_def demoState_def players_at_def)
  have d: "reorders rev"
    by (simp add: reorders_def)
  show ?thesis
    using drawCards_reshuffle [OF a b c d]
    by (simp add: Let_def shortDeckState_def demoState_def demoPlayer_def)
qed

subsection \<open>Scoring\<close>

lemma foldl_plus_sum_list:
  "foldl (\<lambda>acc x. acc + f x) a xs = (a::int) + sum_list (map f xs)"
  by (induction xs arbitrary: a) simp_all

lemma scoreStep_points: "scoreStep tot c = tot + specCardPoints c"
  by (cases "type c") (simp_all add: scoreStep_def specCardPoints_def)

lemma calculateHandScore_points: "calculateHandScore h = sum_list (map specCardPoints h)"
proof -
  have "foldl scoreStep a h = a + sum_list (map specCardPoints h)" for a
    by (induction h arbitrary: a) (simp_all add: scoreStep_points)
  then show ?thesis by (simp add: calculateHandScore_def)
qed

lemma zip_upt_nth: "zip [0..<length ps] ps = map (\<lambda>i. (i, ps ! i)) [0..<length ps]"
  by (rule nth_equalityI) simp_all

lemma opponentPoints_sum:
  "opponentPoints idx ps =
     (\<Sum>i\<in>{i. i < length ps \<and> int i \<noteq> idx}. calculateHandScore (hand (ps ! i)))"
proof -
  let ?f = "\<lambda>i. calculateHandScore (hand (ps ! i))"
  have "map snd (filter (\<lambda>(i, p). int i \<noteq> idx) (zip [0..<length ps] ps))
        = map (\<lambda>i. ps ! i) (filter (\<lambda>i. int i \<noteq> idx) [0..<length ps])"
    by (simp add: zip_upt_nth filter_map comp_def)
  then have "opponentPoints idx ps = sum_list (map ?f (filter (\<lambda>i. int i \<noteq> idx) [0..<length ps]))"
    by (simp add: opponentPoints_def foldl_plus_sum_list comp_def)
  also have "\<dots> = sum ?f (set (filter (\<lambda>i. int i \<noteq> idx) [0..<length ps]))"
    by (rule sum_list_distinct_conv_sum_set) simp
  also have "set (filter (\<lambda>i. int i \<noteq> idx) [0..<length ps]) = {i. i < length ps \<and> int i \<noteq> idx}"
    by auto
  finally show ?thesis .
qed

subsection \<open>The end of a round\<close>

lemma playComment_result:
  "playComment env c i pl s = Some s' \<Longrightarrow> s' = s\<lparr>aiComment := aiComment s'\<rparr>"
  by (auto simp: playComment_def split: if_splits option.splits)

lemma playComment_total:
  "2 \<le> length (players s) \<Longrightarrow> \<exists>s'. playComment env c i pl s = Some s'"
  by (cases "gameMode env") (auto simp: playComment_def players_at_def split: option.splits)

text \<open>The state in which the block "Win / Round Over Logic" or the effect resolution starts.\<close>

lemma finalizeMove_applied:
  assumes applied: "\<not> (gameMode env = ONLINE \<and> \<not> isHost env)"
    and cur: "cur = (case stateOverride of Some s \<Rightarrow> s | None \<Rightarrow> gameState)"
    and pl: "players_at (players cur) (currentPlayerIndex cur) = Some p"
    and pc: "playComment env c (currentPlayerIndex cur) (p\<lparr>hand := splice1 index (hand p)\<rparr>)
               (cur\<lparr>players := (players cur)[nat (currentPlayerIndex cur) := p\<lparr>hand := splice1 index (hand p)\<rparr>],
                    discardPile := discardPile cur @ [c],
                    currentColor := (case chosenWildColor of
                        Some k \<Rightarrow> if color c = BLACK then k else currentColor cur
                      | None \<Rightarrow> currentColor cur)\<rparr>) = Some s3"
  shows "finalizeMove env gameState c index chosenWildColor stateOverride =
     (if splice1 index (hand p) = [] then
        Some (finishRound env (currentPlayerIndex cur) (p\<lparr>hand := splice1 index (hand p)\<rparr>) s3,
              if gameMode env = ONLINE \<and> isHost env
              then sendMultiplayerMessage env (STATE_UPDATE
                     (finishRound env (currentPlayerIndex cur) (p\<lparr>hand := splice1 index (hand p)\<rparr>) s3))
              else [])
      else (case handleCardEffect (recycleOrder env) c s3 of
              None \<Rightarrow> None
            | Some s4 \<Rightarrow> Some (nextTurn s4,
                 if gameMode env = ONLINE \<and> isHost env
                 then sendMultiplayerMessage env (STATE_UPDATE (nextTurn s4)) else [])))"
proof -
  have eq: "(case chosenWildColor of
               Some k \<Rightarrow> if color c = BLACK then s1\<lparr>currentColor := k\<rparr> else s1
             | None \<Rightarrow> s1)
            = s1\<lparr>currentColor := (case chosenWildColor of
                        Some k \<Rightarrow> if color c = BLACK then k else currentColor s1
                      | None \<Rightarrow> currentColor s1)\<rparr>" for s1 :: GameState
    by (simp split: option.splits)
  show ?thesis
    using applied pl pc unfolding finalizeMove_def cur[symmetric] Let_def eq
    by (auto split: option.splits)
qed


lemma opponentPoints_update:
  assumes "nat idx < length ps" "0 \<le> idx"
  shows "opponentPoints idx (ps[nat idx := q]) = opponentPoints idx (ps[nat idx := q'])"
proof -
  have "(\<Sum>i\<in>{i. i < length ps \<and> int i \<noteq> idx}. calculateHandScore (hand (ps[nat idx := q] ! i)))
      = (\<Sum>i\<in>{i. i < length ps \<and> int i \<noteq> idx}. calculateHandScore (hand (ps[nat idx := q'] ! i)))"
    using assms by (intro sum.cong) auto
  then show ?thesis by (simp add: opponentPoints_sum)
qed

lemma finalizeMove_round_end:
  assumes applied: "\<not> (gameMode env = ONLINE \<and> \<not> isHost env)"
    and cur: "cur = (case stateOverride of Some s \<Rightarrow> s | None \<Rightarrow> gameState)"
    and two: "2 \<le> length (players cur)"
    and pl: "players_at (players cur) (currentPlayerIndex cur) = Some p"
    and last: "splice1 index (hand p) = []"
  shows "\<exists>msgs remark pts.
     finalizeMove env gameState c index chosenWildColor stateOverride =
       Some (cur\<lparr>players := (players cur)[nat (currentPlayerIndex cur)
                                 := p\<lparr>hand := [], score := score p + pts\<rparr>],
                 discardPile := discardPile cur @ [c],
                 currentColor := (case chosenWildColor of
                        Some k \<Rightarrow> if color c = BLACK then k else currentColor cur
                      | None \<Rightarrow> currentColor cur),
                 roundWinner := Some (name p), pointsWon := Some pts,
                 status := (if targetScore env \<le> score p + pts then GAME_OVER else ROUND_OVER),
                 winner := (if targetScore env \<le> score p + pts then Some (name p) else winner cur),
                 aiComment := remark\<rparr>, msgs)
     \<and> pts = opponentPoints (currentPlayerIndex cur)
               ((players cur)[nat (currentPlayerIndex cur) := p\<lparr>hand := [], score := score p + pts\<rparr>])
     \<and> (remark = ''Game Over!'' \<or> remark = ''Round Over!'')"
proof -
  let ?i = "currentPlayerIndex cur"
  let ?pl = "p\<lparr>hand := splice1 index (hand p)\<rparr>"
  let ?s2 = "cur\<lparr>players := (players cur)[nat ?i := ?pl],
                    discardPile := discardPile cur @ [c],
                    currentColor := (case chosenWildColor of
                        Some k \<Rightarrow> if color c = BLACK then k else currentColor cur
                      | None \<Rightarrow> currentColor cur)\<rparr>"
  have "2 \<le> length (players ?s2)" using two by simp
  then obtain s3 where pc: "playComment env c ?i ?pl ?s2 = Some s3"
    using playComment_total by blast
  then have s3: "s3 = ?s2\<lparr>aiComment := aiComment s3\<rparr>"
    by (rule playComment_result)
  have idx: "0 \<le> ?i" "nat ?i < length (players cur)"
    using players_at_SomeD[OF pl] by simp_all
  have fm: "finalizeMove env gameState c index chosenWildColor stateOverride =
        Some (finishRound env ?i ?pl s3,
              if gameMode env = ONLINE \<and> isHost env
              then sendMultiplayerMessage env (STATE_UPDATE (finishRound env ?i ?pl s3))
              else [])"
    using finalizeMove_applied[OF applied cur pl pc] last by simp
  define pts where "pts = opponentPoints ?i (players s3)"
  have ps3: "players s3 = (players cur)[nat ?i := ?pl]"
    by (subst s3) simp
  have pts': "pts = opponentPoints ?i ((players cur)[nat ?i := p\<lparr>hand := [], score := score p + pts\<rparr>])"
    unfolding pts_def ps3 by (rule opponentPoints_update[OF idx(2) idx(1)])
  have "finishRound env ?i ?pl s3 =
      cur\<lparr>players := (players cur)[nat ?i := p\<lparr>hand := [], score := score p + pts\<rparr>],
                 discardPile := discardPile cur @ [c],
                 currentColor := (case chosenWildColor of
                        Some k \<Rightarrow> if color c = BLACK then k else currentColor cur
                      | None \<Rightarrow> currentColor cur),
                 roundWinner := Some (name p), pointsWon := Some pts,
                 status := (if targetScore env \<le> score p + pts then GAME_OVER else ROUND_OVER),
                 winner := (if targetScore env \<le> score p + pts then Some (name p) else winner cur),
                 aiComment := (if targetScore env \<le> score p + pts then ''Game Over!'' else ''Round Over!'')\<rparr>"
    unfolding finishRound_def Let_def pts_def[symmetric]
    by (subst (1 2 3 4) s3) (simp add: last)
  with fm pts' show ?thesis by auto
qed

text \<open>
  Claim C4. When a play (one that this peer applies itself, in a match of at least two
  players) removes the last card of the current player's hand, finalizeMove completes,
  the hand is empty, the score of that player grows by exactly the sum of
  calculateHandScore over the hands of all other players, and the status is GAME_OVER if
  the new score has reached the target score and ROUND_OVER otherwise. calculateHandScore
  is the sum of the points of the cards: the value of a number card, 20 for a skip,
  reverse or draw-two, 50 for a wild or wild-draw-four.
\<close>

theorem round_end_scoring:
  assumes applied: "\<not> (gameMode env = ONLINE \<and> \<not> isHost env)"
    and cur: "cur = (case stateOverride of Some s \<Rightarrow> s | None \<Rightarrow> gameState)"
    and two: "2 \<le> length (players cur)"
    and pl: "players_at (players cur) (currentPlayerIndex cur) = Some p"
    and last: "splice1 index (hand p) = []"
  shows "\<exists>s' msgs w.
       finalizeMove env gameState c index chosenWildColor stateOverride = Some (s', msgs)
     \<and> players_at (players s') (currentPlayerIndex cur) = Some w
     \<and> hand w = []
     \<and> score w = score p
          + (\<Sum>i\<in>{i. i < length (players s') \<and> int i \<noteq> currentPlayerIndex cur}.
               calculateHandScore (hand (players s' ! i)))
     \<and> status s' = (if targetScore env \<le> score w then GAME_OVER else ROUND_OVER)
     \<and> (\<forall>h. calculateHandScore h = sum_list (map specCardPoints h))"
proof -
  let ?i = "currentPlayerIndex cur"
  from finalizeMove_round_end[OF applied cur two pl last, of c chosenWildColor]
  obtain msgs remark pts where
    fm: "finalizeMove env gameState c index chosenWildColor stateOverride =
       Some (cur\<lparr>players := (players cur)[nat ?i := p\<lparr>hand := [], score := score p + pts\<rparr>],
                 discardPile := discardPile cur @ [c],
                 currentColor := (case chosenWildColor of
                        Some k \<Rightarrow> if color c = BLACK then k else currentColor cur
                      | None \<Rightarrow> currentColor cur),
                 roundWinner := Some (name p), pointsWon := Some pts,
                 status := (if targetScore env \<le> score p + pts then GAME_OVER else ROUND_OVER),
                 winner := (if targetScore env \<le> score p + pts then Some (name p) else winner cur),
                 aiComment := remark\<rparr>, msgs)"
      (is "_ = Some (?s', _)")
    and pts: "pts = opponentPoints ?i
               ((players cur)[nat ?i := p\<lparr>hand := [], score := score p + pts\<rparr>])"
    by (elim exE conjE)
  let ?w = "p\<lparr>hand := [], score := score p + pts\<rparr>"
  have idx: "0 \<le> ?i" "nat ?i < length (players cur)"
    using players_at_SomeD[OF pl] by simp_all
  have ps: "players ?s' = (players cur)[nat ?i := ?w]"
    by simp
  have w: "players_at (players ?s') ?i = Some ?w"
    using idx by (simp add: players_at_def)
  have "pts = (\<Sum>i\<in>{i. i < length (players ?s') \<and> int i \<noteq> ?i}.
               calculateHandScore (hand (players ?s' ! i)))"
    unfolding ps using pts by (simp add: opponentPoints_sum)
  then have sc: "score ?w = score p
          + (\<Sum>i\<in>{i. i < length (players ?s') \<and> int i \<noteq> ?i}.
               calculateHandScore (hand (players ?s' ! i)))"
    by simp
  have hw: "hand ?w = []" by simp
  have st: "status ?s' = (if targetScore env \<le> score ?w then GAME_OVER else ROUND_OVER)"
    by simp
  have pt: "\<forall>h. calculateHandScore h = sum_list (map specCardPoints h)"
    by (simp add: calculateHandScore_points)
  show ?thesis
    by (intro exI conjI) (rule fm, rule w, rule hw, rule sc, rule st, rule pt)
qed

theorem round_end_scoring_witness:
  "finalizeMove (demoEnv LOCAL False) lastCardState (demoCard 2 RED DRAW_TWO None) 0 None None
     = Some (lastCardState\<lparr>
          players := [(demoPlayer ''p1'' [])\<lparr>score := 77\<rparr>,
                      demoPlayer ''p2'' [demoCard 3 BLUE SKIP None, demoCard 4 BLACK WILD None,
                           demoCard 5 GREEN NUMBER (Some 7)]],
          discardPile := [demoCard 1 RED NUMBER (Some 1), demoCard 2 RED DRAW_TWO None],
          roundWinner := Some ''p1'', pointsWon := Some 77, status := ROUND_OVER,
          aiComment := ''Round Over!''\<rparr>, [])
   \<and> (\<exists>s' msgs w.
       finalizeMove (demoEnv LOCAL False) lastCardState (demoCard 2 RED DRAW_TWO None) 0 None None
          = Some (s', msgs)
     \<and> players_at (players s') (currentPlayerIndex lastCardState) = Some w
     \<and> hand w = []
     \<and> score w = score (demoPlayer ''p1'' [demoCard 2 RED DRAW_TWO None])
          + (\<Sum>i\<in>{i. i < length (players s') \<and> int i \<noteq> currentPlayerIndex lastCardState}.
               calculateHandScore (hand (players s' ! i)))
     \<and> status s' = (if targetScore (demoEnv LOCAL False) \<le> score w then GAME_OVER else ROUND_OVER)
     \<and> (\<forall>h. calculateHandScore h = sum_list (map specCardPoints h)))"
proof -
  have a: "\<not> (gameMode (demoEnv LOCAL False) = ONLINE \<and> \<not> isHost (demoEnv LOCAL False))"
    by (simp add: demoEnv_def)
  have b: "lastCardState = (case None of Some s \<Rightarrow> s | None \<Rightarrow> lastCardState)"
    by simp
  have c: "2 \<le> length (players lastCardState)"
    by (simp add: lastCardState_def demo_defs)
  have d: "players_at (players lastCardState) (currentPlayerIndex lastCardState)
             = Some (demoPlayer ''p1'' [demoCard 2 RED DRAW_TWO None])"
    by (simp add: lastCardState_def demo_defs players_at_def)
  have e: "splice1 0 (hand (demoPlayer ''p1'' [demoCard 2 RED DRAW_TWO None])) = []"
    by (simp add: demo_defs splice1_def)
  have ev: "finalizeMove (demoEnv LOCAL False) lastCardState (demoCard 2 RED DRAW_TWO None) 0 None None
     = Some (lastCardState\<lparr>
          players := [(demoPlayer ''p1'' [])\<lparr>score := 77\<rparr>,
                      demoPlayer ''p2'' [demoCard 3 BLUE SKIP None, demoCard 4 BLACK WILD None,
                           demoCard 5 GREEN NUMBER (Some 7)]],
          discardPile := [demoCard 1 RED NUMBER (Some 1), demoCard 2 RED DRAW_TWO None],
          roundWinner := Some ''p1'', pointsWon := Some 77, status := ROUND_OVER,
          aiComment := ''Round Over!''\<rparr>, [])"
    by (simp add: play_defs lastCardState_def demo_defs)
  show ?thesis
    using round_end_scoring [OF a b c d e, of "demoCard 2 RED DRAW_TWO None" None] ev
    by blast
qed

text \<open>
  Claim C10, as amended. When a play (applied by this peer, in a match of at least two
  players) empties the hand of the current player, the effect of the card is not
  resolved: the deck, the direction, the current-player index, the thinking flag and
  every other player are unchanged, so nobody draws, whatever the type of the card. What
  changes is the discard pile (the card is appended), the winner's hand (now empty) and
  score, the status, the winner and round-result fields, the commentary text, and, when
  the card is a wild one played with a chosen colour, the active colour, which becomes
  the chosen colour.
\<close>

theorem round_end_frame:
  assumes applied: "\<not> (gameMode env = ONLINE \<and> \<not> isHost env)"
    and cur: "cur = (case stateOverride of Some s \<Rightarrow> s | None \<Rightarrow> gameState)"
    and two: "2 \<le> length (players cur)"
    and pl: "players_at (players cur) (currentPlayerIndex cur) = Some p"
    and last: "splice1 index (hand p) = []"
  shows "\<exists>s' msgs pts.
       finalizeMove env gameState c index chosenWildColor stateOverride = Some (s', msgs)
     \<and> deck s' = deck cur
     \<and> direction s' = direction cur
     \<and> currentPlayerIndex s' = currentPlayerIndex cur
     \<and> isAiThinking s' = isAiThinking cur
     \<and> length (players s') = length (players cur)
     \<and> (\<forall>i. i < length (players cur) \<and> int i \<noteq> currentPlayerIndex cur
              \<longrightarrow> players s' ! i = players cur ! i)
     \<and> players s' ! nat (currentPlayerIndex cur) = p\<lparr>hand := [], score := score p + pts\<rparr>
     \<and> discardPile s' = discardPile cur @ [c]
     \<and> currentColor s' = (case chosenWildColor of
                            Some k \<Rightarrow> if color c = BLACK then k else currentColor cur
                          | None \<Rightarrow> currentColor cur)
     \<and> (status s' = ROUND_OVER \<or> status s' = GAME_OVER)
     \<and> roundWinner s' = Some (name p)
     \<and> pointsWon s' = Some pts
     \<and> (winner s' = winner cur \<or> winner s' = Some (name p))
     \<and> (aiComment s' = ''Round Over!'' \<or> aiComment s' = ''Game Over!'')"
proof -
  let ?i = "currentPlayerIndex cur"
  from finalizeMove_round_end[OF applied cur two pl last, of c chosenWildColor]
  obtain msgs remark pts where
    fm: "finalizeMove env gameState c index chosenWildColor stateOverride =
       Some (cur\<lparr>players := (players cur)[nat ?i := p\<lparr>hand := [], score := score p + pts\<rparr>],
                 discardPile := discardPile cur @ [c],
                 currentColor := (case chosenWildColor of
                        Some k \<Rightarrow> if color c = BLACK then k else currentColor cur
                      | None \<Rightarrow> currentColor cur),
                 roundWinner := Some (name p), pointsWon := Some pts,
                 status := (if targetScore env \<le> score p + pts then GAME_OVER else ROUND_OVER),
                 winner := (if targetScore env \<le> score p + pts then Some (name p) else winner cur),
                 aiComment := remark\<rparr>, msgs)"
      (is "_ = Some (?s', _)")
    and rm: "remark = ''Game Over!'' \<or> remark = ''Round Over!''"
    by (elim exE conjE)
  have idx: "0 \<le> ?i" "nat ?i < length (players cur)"
    using players_at_SomeD[OF pl] by simp_all
  have others: "\<forall>i. i < length (players cur) \<and> int i \<noteq> ?i \<longrightarrow> players ?s' ! i = players cur ! i"
    using idx by auto
  have me: "players ?s' ! nat ?i = p\<lparr>hand := [], score := score p + pts\<rparr>"
    using idx by simp
  have st: "status ?s' = ROUND_OVER \<or> status ?s' = GAME_OVER" by simp
  have wn: "winner ?s' = winner cur \<or> winner ?s' = Some (name p)" by simp
  have ac: "aiComment ?s' = ''Round Over!'' \<or> aiComment ?s' = ''Game Over!''"
    using rm by auto
  show ?thesis
    by (intro exI conjI) (rule fm, simp, simp, simp, simp, simp, rule others, rule me, simp, simp,
        rule st, simp, simp, rule wn, rule ac)
qed

theorem round_end_frame_witness:
  "finalizeMove (demoEnv LOCAL False) lastWildState (demoCard 2 BLACK WILD_DRAW_FOUR None) 0
       (Some BLUE) None
     = Some (lastWildState\<lparr>
          players := [(demoPlayer ''p1'' [])\<lparr>score := 20\<rparr>,
                      demoPlayer ''p2'' [demoCard 3 BLUE SKIP None]],
          discardPile := [demoCard 1 RED NUMBER (Some 1), demoCard 2 BLACK WILD_DRAW_FOUR None],
          currentColor := BLUE,
          roundWinner := Some ''p1'', pointsWon := Some 20, status := ROUND_OVER,
          aiComment := ''Round Over!''\<rparr>, [])"
proof -
  have a: "\<not> (gameMode (demoEnv LOCAL False) = ONLINE \<and> \<not> isHost (demoEnv LOCAL False))"
    by (simp add: demoEnv_def)
  have b: "lastWildState = (case None of Some s \<Rightarrow> s | None \<Rightarrow> lastWildState)"
    by simp
  have c: "2 \<le> length (players lastWildState)"
    by (simp add: lastWildState_def demo_defs)
  have d: "players_at (players lastWildState) (currentPlayerIndex lastWildState)
             = Some (demoPlayer ''p1'' [demoCard 2 BLACK WILD_DRAW_FOUR None])"
    by (simp add: lastWildState_def demo_defs players_at_def)
  have e: "splice1 0 (hand (demoPlayer ''p1'' [demoCard 2 BLACK WILD_DRAW_FOUR None])) = []"
    by (simp add: demo_defs splice1_def)
  have ev: "finalizeMove (demoEnv LOCAL False) lastWildState
       (demoCard 2 BLACK WILD_DRAW_FOUR None) 0 (Some BLUE) None
     = Some (lastWildState\<lparr>
          players := [(demoPlayer ''p1'' [])\<lparr>score := 20\<rparr>,
                      demoPlayer ''p2'' [demoCard 3 BLUE SKIP None]],
          discardPile := [demoCard 1 RED NUMBER (Some 1), demoCard 2 BLACK WILD_DRAW_FOUR None],
          currentColor := BLUE,
          roundWinner := Some ''p1'', pointsWon := Some 20, status := ROUND_OVER,
          aiComment := ''Round Over!''\<rparr>, [])"
    by (simp add: play_defs lastWildState_def demo_defs)
  show ?thesis
    using round_end_frame [OF a b c d e, of "demoCard 2 BLACK WILD_DRAW_FOUR None" "Some BLUE"] ev
    by blast
qed

text \<open>
  The claim as first stated lets only the discard pile, the winner's hand and score and
  the status and round-result fields change. A wild draw four played as the last card with
  the colour blue chosen also turns the active colour from red to blue (and replaces the
  commentary text), while the other player draws nothing.
\<close>

theorem round_end_changes_active_colour:
  "finalizeMove (demoEnv LOCAL False) lastWildState (demoCard 2 BLACK WILD_DRAW_FOUR None) 0
       (Some BLUE) None
     = Some (lastWildState\<lparr>
          players := [(demoPlayer ''p1'' [])\<lparr>score := 20\<rparr>,
                      demoPlayer ''p2'' [demoCard 3 BLUE SKIP None]],
          discardPile := [demoCard 1 RED NUMBER (Some 1), demoCard 2 BLACK WILD_DRAW_FOUR None],
          currentColor := BLUE,
          roundWinner := Some ''p1'', pointsWon := Some 20, status := ROUND_OVER,
          aiComment := ''Round Over!''\<rparr>, [])
   \<and> currentColor lastWildState = RED
   \<and> aiComment lastWildState = []"
  by (simp add: play_defs lastWildState_def demo_defs)

subsection \<open>Reverse with two players\<close>

text \<open>
  Claim C6. In a state with exactly two players, resolving the effect of a reverse card
  gives the state that resolving a skip card of the same colour gives: the direction is
  unchanged and the turn pointer has advanced once, so that after the advance that
  follows every play the turn is back at the player who played (for a valid index and
  direction). For cards of different colours the two results differ in the active colour
  only.
\<close>

theorem reverse_is_skip_for_two:
  assumes two: "length (players s) = 2"
    and r: "type r = REVERSE"
    and k: "type k = SKIP"
  shows "(\<exists>s'. handleCardEffect recycle r s = Some s'
            \<and> direction s' = direction s
            \<and> currentPlayerIndex s' = currentPlayerIndex (nextTurn s)
            \<and> handleCardEffect recycle k s
                = Some (s'\<lparr>currentColor := (if color k \<noteq> BLACK then color k else currentColor s)\<rparr>)
            \<and> ((currentPlayerIndex s = 0 \<or> currentPlayerIndex s = 1)
                 \<and> (direction s = 1 \<or> direction s = - 1)
                 \<longrightarrow> currentPlayerIndex (nextTurn s') = currentPlayerIndex s))
         \<and> (color r = color k \<longrightarrow> handleCardEffect recycle r s = handleCardEffect recycle k s)"
  using assms
  by (auto simp: handleCardEffect_def Let_def nextTurn_def)

theorem reverse_is_skip_for_two_witness:
  "handleCardEffect rev (demoCard 10 RED REVERSE None) lastCardState
     = handleCardEffect rev (demoCard 11 RED SKIP None) lastCardState
   \<and> handleCardEffect rev (demoCard 10 RED REVERSE None) lastCardState
     = Some (lastCardState\<lparr>currentPlayerIndex := 1\<rparr>)
   \<and> currentPlayerIndex (nextTurn (lastCardState\<lparr>currentPlayerIndex := 1\<rparr>)) = 0"
proof -
  have a: "length (players lastCardState) = 2" by (simp add: lastCardState_def demo_defs)
  have b: "type (demoCard 10 RED REVERSE None) = REVERSE" by (simp add: demo_defs)
  have c: "type (demoCard 11 RED SKIP None) = SKIP" by (simp add: demo_defs)
  have d: "color (demoCard 10 RED REVERSE None) = color (demoCard 11 RED SKIP None)"
    by (simp add: demo_defs)
  have e: "handleCardEffect rev (demoCard 10 RED REVERSE None) lastCardState
     = Some (lastCardState\<lparr>currentPlayerIndex := 1\<rparr>)"
    by (simp add: play_defs lastCardState_def demo_defs)
  have f: "currentPlayerIndex (nextTurn (lastCardState\<lparr>currentPlayerIndex := 1\<rparr>)) = 0"
    by (simp add: play_defs lastCardState_def demo_defs)
  show ?thesis
    using reverse_is_skip_for_two [OF a b c, of rev] d e f by blast
qed

subsection \<open>Requests of the follower\<close>

text \<open>
  Claim C9. When the listener receives a move request whose card id is not the id of any
  card in the hand of the follower (the player at index 1), it returns the match state
  as it was and sends nothing: no mutation and no state snapshot.
\<close>

theorem stale_move_request_ignored:
  assumes "players_at (players gameState) 1 = Some follower"
    and "cardId \<notin> card_id ` set (hand follower)"
  shows "onData env gameState (PLAYER_MOVE cardId wildColor) = Some (gameState, [])"
proof -
  have "findIndex (\<lambda>c. card_id c = cardId) (hand follower) = None"
    using assms(2) by (auto simp: findIndex_None)
  then show ?thesis
    using assms(1) by (simp add: onData_def)
qed

theorem stale_move_request_ignored_witness:
  "onData (demoEnv ONLINE True) onlineState (PLAYER_MOVE ''card-2'' None) = Some (onlineState, [])"
proof -
  have a: "players_at (players onlineState) 1
     = Some (demoPlayer ''client'' [demoCard 7 RED NUMBER (Some 7), demoCard 6 GREEN NUMBER (Some 2)])"
    by (simp add: onlineState_def demo_defs players_at_def)
  have b: "''card-2'' \<notin> card_id ` set (hand (demoPlayer ''client''
              [demoCard 7 RED NUMBER (Some 7), demoCard 6 GREEN NUMBER (Some 2)]))"
    by (simp add: demo_defs id_defs)
  show ?thesis
    using stale_move_request_ignored [OF a b] .
qed







text \<open>
  The host flag is the only check of the listener on this path. A listener that saw
  \<^verbatim>\<open>isHost\<close> as true would find the red 7 in the follower's hand and hand it to
  \<^verbatim>\<open>finalizeMove\<close> without calling \<^verbatim>\<open>isValidMove\<close>.
\<close>

lemma listener_with_host_flag_applies_unvalidated:
  "\<not> isValidMove (demoCard 7 RED NUMBER (Some 7)) (last (discardPile onlineState))
       (currentColor onlineState)
   \<and> handleHumanPlay (demoEnv LOCAL False) onlineState (demoCard 7 RED NUMBER (Some 7)) 0
       = Some (onlineState, [])
   \<and> onData (demoEnv ONLINE True) onlineState (PLAYER_MOVE ''card-7'' None)
       = Some (onlineState\<lparr>
            players := [demoPlayer ''host'' [demoCard 3 GREEN NUMBER (Some 4), demoCard 4 RED NUMBER (Some 2)],
                        demoPlayer ''client'' [demoCard 6 GREEN NUMBER (Some 2)]],
            discardPile := [demoCard 1 RED SKIP None, demoCard 2 BLUE SKIP None,
                            demoCard 7 RED NUMBER (Some 7)],
            currentColor := RED, currentPlayerIndex := 0,
            aiComment := ''Player 2 played RED NUMBER''\<rparr>,
          [STATE_UPDATE (onlineState\<lparr>
            players := [demoPlayer ''host'' [demoCard 3 GREEN NUMBER (Some 4), demoCard 4 RED NUMBER (Some 2)],
                        demoPlayer ''client'' [demoCard 6 GREEN NUMBER (Some 2)]],
            discardPile := [demoCard 1 RED SKIP None, demoCard 2 BLUE SKIP None,
                            demoCard 7 RED NUMBER (Some 7)],
            currentColor := RED, currentPlayerIndex := 0,
            aiComment := ''Player 2 played RED NUMBER''\<rparr>)])"
  by (simp add: onData_def handleHumanPlay_def isValidMoveAt_def lastOpt_def isMyTurn_def
      isValidMove_def play_defs onlineState_def demo_defs id_defs)

subsection \<open>Draw two and wild draw four\<close>

lemma nextTurn_index_cong:
  "currentPlayerIndex s = currentPlayerIndex t \<Longrightarrow> direction s = direction t
   \<Longrightarrow> length (players s) = length (players t)
   \<Longrightarrow> currentPlayerIndex (nextTurn s) = currentPlayerIndex (nextTurn t)"
  by (simp add: nextTurn_def Let_def)

lemma victimIndex_nextTurn: "victimIndex s = currentPlayerIndex (nextTurn s)"
  by (simp add: victimIndex_def nextTurn_def Let_def)

lemma nextTurn_in_range:
  "players s \<noteq> [] \<Longrightarrow>
     0 \<le> currentPlayerIndex (nextTurn s) \<and> currentPlayerIndex (nextTurn s) < int (length (players s))"
  by (auto simp: nextTurn_def Let_def)

lemma nextTurn_moves:
  assumes "2 \<le> length (players s)"
    and "0 \<le> currentPlayerIndex s" "currentPlayerIndex s < int (length (players s))"
    and "direction s = 1 \<or> direction s = - 1"
  shows "currentPlayerIndex (nextTurn s) \<noteq> currentPlayerIndex s"
  using assms by (auto simp: nextTurn_def Let_def)

lemma nextTurn_two_twice:
  assumes "length (players s) = 2"
    and "0 \<le> currentPlayerIndex s" "currentPlayerIndex s < 2"
    and "direction s = 1 \<or> direction s = - 1"
  shows "currentPlayerIndex (nextTurn (nextTurn s)) = currentPlayerIndex s"
  using assms by (auto simp: nextTurn_def Let_def)

lemma drawCards_valid:
  assumes pl: "players_at (players s) v = Some q"
  shows "drawCards recycle v n s =
     Some (s\<lparr>deck := drop n (if length (deck s) < n \<and> 1 < length (discardPile s)
                             then deck s @ recycle (butlast (discardPile s)) else deck s),
             players := (players s)[nat v := q\<lparr>hand := hand q @
                   take n (if length (deck s) < n \<and> 1 < length (discardPile s)
                           then deck s @ recycle (butlast (discardPile s)) else deck s)\<rparr>],
             discardPile := (if length (deck s) < n \<and> 1 < length (discardPile s)
                             then [last (discardPile s)] else discardPile s)\<rparr>)"
proof -
  define pool where "pool = (if length (deck s) < n \<and> 1 < length (discardPile s)
                             then deck s @ recycle (butlast (discardPile s)) else deck s)"
  define pile where "pile = (if length (deck s) < n \<and> 1 < length (discardPile s)
                             then [last (discardPile s)] else discardPile s)"
  have split: "(if length (deck s) < n \<and> 1 < length (discardPile s)
            then (deck s @ recycle (butlast (discardPile s)), [last (discardPile s)])
            else (deck s, discardPile s)) = (pool, pile)"
    by (simp add: pool_def pile_def)
  have dc: "drawCards recycle v n s =
      (if 0 < min n (length pool) then
         Some (s\<lparr>deck := drop (min n (length pool)) pool,
                 players := (players s)[nat v := q\<lparr>hand := hand q @ take (min n (length pool)) pool\<rparr>],
                 discardPile := pile\<rparr>)
       else Some (s\<lparr>deck := pool, discardPile := pile\<rparr>))"
    unfolding drawCards_def split using pl by (simp add: Let_def)
  have q: "(players s)[nat v := q] = players s"
    using players_at_SomeD[OF pl] by (metis list_update_id)
  have t: "take (min n (length pool)) pool = take n pool"
    "drop (min n (length pool)) pool = drop n pool"
    by (simp_all add: min_def)
  have "drawCards recycle v n s =
         Some (s\<lparr>deck := drop n pool,
                 players := (players s)[nat v := q\<lparr>hand := hand q @ take n pool\<rparr>],
                 discardPile := pile\<rparr>)"
  proof (cases "0 < min n (length pool)")
    case True
    then show ?thesis unfolding dc t by simp
  next
    case False
    then have "n = 0 \<or> pool = []" by (auto simp: min_def split: if_splits)
    then have e: "take n pool = []" "drop n pool = pool" by auto
    have "q\<lparr>hand := hand q @ take n pool\<rparr> = q" by (simp add: e)
    then have "(players s)[nat v := q\<lparr>hand := hand q @ take n pool\<rparr>] = players s"
      using q by simp
    then have "s\<lparr>deck := drop n pool,
                 players := (players s)[nat v := q\<lparr>hand := hand q @ take n pool\<rparr>],
                 discardPile := pile\<rparr> = s\<lparr>deck := pool, discardPile := pile\<rparr>"
      by (simp add: e)
    moreover have "drawCards recycle v n s = Some (s\<lparr>deck := pool, discardPile := pile\<rparr>)"
      unfolding dc by (simp only: False if_False)
    ultimately show ?thesis by simp
  qed
  then show ?thesis unfolding pool_def pile_def .
qed


lemma reorders_Nil: "reorders f \<Longrightarrow> f [] = []"
  unfolding reorders_def by (metis mset_zero_iff mset.simps(1))

lemma handleCardEffect_draw:
  assumes ty: "type c = DRAW_TWO \<or> type c = WILD_DRAW_FOUR"
  shows "handleCardEffect recycle c s =
     (case drawCards recycle
             (victimIndex (if color c \<noteq> BLACK then s\<lparr>currentColor := color c\<rparr> else s))
             (if type c = DRAW_TWO then 2 else 4)
             (if color c \<noteq> BLACK then s\<lparr>currentColor := color c\<rparr> else s) of
        None \<Rightarrow> None
      | Some sd \<Rightarrow> Some (nextTurn sd))"
  using ty by (auto simp: handleCardEffect_def Let_def)

text \<open>
  Claim C5, as amended. When the current player of a match of at least two players plays
  a draw two (n = 2) or a wild draw four (n = 4) and keeps at least one card, the play
  completes, and the player v who is next in the current direction, computed before any
  advance of the pointer and different from the player who plays, receives the first
  k cards of the pool: the deck, or, when the deck holds fewer than n cards, the deck
  followed by the recycled discard pile that lay under the played card. Here k is n
  whenever the deck and that discard pile together hold at least n cards, and otherwise
  the number of cards in the pool. After the effect and the advance that follows
  every play the turn pointer is at the player after v; with exactly two players that is
  the player who played the card.
\<close>

theorem draw_card_effect:
  assumes applied: "\<not> (gameMode env = ONLINE \<and> \<not> isHost env)"
    and cur: "cur = (case stateOverride of Some s \<Rightarrow> s | None \<Rightarrow> gameState)"
    and two: "2 \<le> length (players cur)"
    and pl: "players_at (players cur) (currentPlayerIndex cur) = Some p"
    and dir: "direction cur = 1 \<or> direction cur = - 1"
    and ty: "type c = DRAW_TWO \<or> type c = WILD_DRAW_FOUR"
    and rest: "splice1 index (hand p) \<noteq> []"
    and re: "reorders (recycleOrder env)"
  shows "\<exists>s' msgs.
      finalizeMove env gameState c index chosenWildColor stateOverride = Some (s', msgs)
    \<and> (let n = (if type c = DRAW_TWO then 2 else 4);
           v = currentPlayerIndex (nextTurn cur);
           pool = (if length (deck cur) < n
                   then deck cur @ recycleOrder env (discardPile cur) else deck cur);
           k = min n (length pool)
       in v \<noteq> currentPlayerIndex cur \<and> 0 \<le> v \<and> nat v < length (players cur)
          \<and> hand (players s' ! nat v) = hand (players cur ! nat v) @ take k pool
          \<and> length (take k pool) = k
          \<and> (n \<le> length (deck cur) + length (discardPile cur) \<longrightarrow> k = n)
          \<and> currentPlayerIndex s' = currentPlayerIndex (nextTurn (cur\<lparr>currentPlayerIndex := v\<rparr>))
          \<and> (length (players cur) = 2 \<longrightarrow> currentPlayerIndex s' = currentPlayerIndex cur))"
proof -
  let ?i = "currentPlayerIndex cur"
  let ?R = "recycleOrder env"
  let ?pl = "p\<lparr>hand := splice1 index (hand p)\<rparr>"
  let ?s2 = "cur\<lparr>players := (players cur)[nat ?i := ?pl],
                    discardPile := discardPile cur @ [c],
                    currentColor := (case chosenWildColor of
                        Some k \<Rightarrow> if color c = BLACK then k else currentColor cur
                      | None \<Rightarrow> currentColor cur)\<rparr>"
  define n :: nat where "n = (if type c = DRAW_TWO then 2 else 4)"
  define v where "v = currentPlayerIndex (nextTurn cur)"
  define pool where "pool = (if length (deck cur) < n
                   then deck cur @ ?R (discardPile cur) else deck cur)"
  have "2 \<le> length (players ?s2)" using two by simp
  then obtain s3 where pc: "playComment env c ?i ?pl ?s2 = Some s3"
    using playComment_total by blast
  then have s3: "s3 = ?s2\<lparr>aiComment := aiComment s3\<rparr>"
    by (rule playComment_result)
  define ns where "ns = (if color c \<noteq> BLACK then s3\<lparr>currentColor := color c\<rparr> else s3)"
  have f3: "deck s3 = deck cur" "discardPile s3 = discardPile cur @ [c]"
    "players s3 = (players cur)[nat ?i := ?pl]" "currentPlayerIndex s3 = ?i"
    "direction s3 = direction cur"
    by (subst s3, simp)+
  have fn: "deck ns = deck cur" "discardPile ns = discardPile cur @ [c]"
    "players ns = (players cur)[nat ?i := ?pl]" "currentPlayerIndex ns = ?i"
    "direction ns = direction cur"
    by (simp_all add: ns_def f3)
  have idx: "0 \<le> ?i" "nat ?i < length (players cur)"
    using players_at_SomeD[OF pl] by simp_all
  have ne: "players cur \<noteq> []" using two by auto
  have vr: "0 \<le> v" "v < int (length (players cur))"
    using nextTurn_in_range[OF ne] by (simp_all add: v_def)
  have vi: "v \<noteq> ?i"
    unfolding v_def using two idx dir by (intro nextTurn_moves) auto
  have vn: "victimIndex ns = v"
    unfolding victimIndex_nextTurn v_def by (rule nextTurn_index_cong) (simp_all add: fn)
  define q where "q = players cur ! nat v"
  have nv: "nat v \<noteq> nat ?i" using vi vr idx by auto
  have pq: "players_at (players ns) v = Some q"
    using vr nv by (simp add: players_at_def fn q_def)
  define pool' where "pool' = (if length (deck ns) < n \<and> 1 < length (discardPile ns)
                             then deck ns @ ?R (butlast (discardPile ns)) else deck ns)"
  have pp: "pool' = pool"
    by (cases "discardPile cur = []") (auto simp: pool'_def pool_def fn reorders_Nil[OF re])
  define sd where "sd = ns\<lparr>deck := drop n pool',
             players := (players ns)[nat v := q\<lparr>hand := hand q @ take n pool'\<rparr>],
             discardPile := (if length (deck ns) < n \<and> 1 < length (discardPile ns)
                             then [last (discardPile ns)] else discardPile ns)\<rparr>"
  have dv: "drawCards ?R v n ns = Some sd"
    unfolding sd_def pool'_def by (rule drawCards_valid[OF pq])
  have hce: "handleCardEffect ?R c s3 = Some (nextTurn sd)"
    using handleCardEffect_draw[OF ty, of ?R s3] dv vn
    by (simp add: ns_def[symmetric] n_def[symmetric])
  have fd: "players sd = (players ns)[nat v := q\<lparr>hand := hand q @ take n pool\<rparr>]"
    "currentPlayerIndex sd = ?i" "direction sd = direction cur"
    by (simp_all add: sd_def fn pp)
  have fm: "finalizeMove env gameState c index chosenWildColor stateOverride =
      Some (nextTurn (nextTurn sd),
            if gameMode env = ONLINE \<and> isHost env
            then sendMultiplayerMessage env (STATE_UPDATE (nextTurn (nextTurn sd))) else [])"
    using finalizeMove_applied[OF applied cur pl pc] rest hce by simp
  have lv: "nat v < length (players cur)" using vr by auto
  have hv: "hand (players (nextTurn (nextTurn sd)) ! nat v) = hand (players cur ! nat v) @ take n pool"
    using lv by (simp add: fd fn q_def)
  have tk: "take n pool = take (min n (length pool)) pool"
    by (simp add: min_def)
  have lk: "length (take (min n (length pool)) pool) = min n (length pool)"
    by simp
  have av: "n \<le> length (deck cur) + length (discardPile cur) \<longrightarrow> min n (length pool) = n"
    by (auto simp: pool_def reorders_length[OF re])
  have i1: "currentPlayerIndex (nextTurn sd) = v"
    unfolding v_def by (rule nextTurn_index_cong) (simp_all add: fd fn)
  have i2: "currentPlayerIndex (nextTurn (nextTurn sd))
              = currentPlayerIndex (nextTurn (cur\<lparr>currentPlayerIndex := v\<rparr>))"
    by (rule nextTurn_index_cong) (simp_all add: i1 fd fn)
  have i3: "length (players cur) = 2 \<longrightarrow> currentPlayerIndex (nextTurn (nextTurn sd)) = ?i"
  proof
    assume l2: "length (players cur) = 2"
    have "currentPlayerIndex (nextTurn (nextTurn cur)) = ?i"
      using l2 idx dir by (intro nextTurn_two_twice) auto
    moreover have "currentPlayerIndex (nextTurn (cur\<lparr>currentPlayerIndex := v\<rparr>))
        = currentPlayerIndex (nextTurn (nextTurn cur))"
      by (rule nextTurn_index_cong) (simp_all add: v_def)
    ultimately show "currentPlayerIndex (nextTurn (nextTurn sd)) = ?i"
      using i2 by simp
  qed
  show ?thesis
    unfolding Let_def n_def[symmetric] v_def[symmetric] pool_def[symmetric]
    using fm vi vr(1) lv hv[unfolded tk] lk av i2 i3
    by blast
qed

theorem draw_card_effect_witness:
  "finalizeMove (demoEnv LOCAL False) drawTwoState (demoCard 2 RED DRAW_TWO None) 0 None None
     = Some (drawTwoState\<lparr>
          deck := [demoCard 6 BLUE NUMBER (Some 6)],
          players := [demoPlayer ''p1'' [demoCard 3 GREEN NUMBER (Some 4)],
                      demoPlayer ''p2'' [demoCard 7 BLUE NUMBER (Some 7),
                          demoCard 9 GREEN NUMBER (Some 9), demoCard 8 GREEN NUMBER (Some 8)]],
          discardPile := [demoCard 1 RED NUMBER (Some 1), demoCard 2 RED DRAW_TWO None],
          aiComment := ''p1 played RED DRAW_TWO''\<rparr>, [])
   \<and> currentPlayerIndex (nextTurn drawTwoState) = 1
   \<and> currentPlayerIndex drawTwoState = 0"
proof -
  have a: "\<not> (gameMode (demoEnv LOCAL False) = ONLINE \<and> \<not> isHost (demoEnv LOCAL False))"
    by (simp add: demoEnv_def)
  have b: "drawTwoState = (case None of Some s \<Rightarrow> s | None \<Rightarrow> drawTwoState)"
    by simp
  have c: "2 \<le> length (players drawTwoState)"
    by (simp add: drawTwoState_def demo_defs)
  have d: "players_at (players drawTwoState) (currentPlayerIndex drawTwoState)
             = Some (demoPlayer ''p1'' [demoCard 2 RED DRAW_TWO None, demoCard 3 GREEN NUMBER (Some 4)])"
    by (simp add: drawTwoState_def demo_defs players_at_def)
  have e: "direction drawTwoState = 1 \<or> direction drawTwoState = - 1"
    by (simp add: drawTwoState_def demo_defs)
  have f: "type (demoCard 2 RED DRAW_TWO None) = DRAW_TWO
           \<or> type (demoCard 2 RED DRAW_TWO None) = WILD_DRAW_FOUR"
    by (simp add: demo_defs)
  have g: "splice1 0 (hand (demoPlayer ''p1''
              [demoCard 2 RED DRAW_TWO None, demoCard 3 GREEN NUMBER (Some 4)])) \<noteq> []"
    by (simp add: demo_defs splice1_def)
  have h: "reorders (recycleOrder (demoEnv LOCAL False))"
    by (simp add: demoEnv_def reorders_def)
  have ev: "finalizeMove (demoEnv LOCAL False) drawTwoState (demoCard 2 RED DRAW_TWO None) 0 None None
     = Some (drawTwoState\<lparr>
          deck := [demoCard 6 BLUE NUMBER (Some 6)],
          players := [demoPlayer ''p1'' [demoCard 3 GREEN NUMBER (Some 4)],
                      demoPlayer ''p2'' [demoCard 7 BLUE NUMBER (Some 7),
                          demoCard 9 GREEN NUMBER (Some 9), demoCard 8 GREEN NUMBER (Some 8)]],
          discardPile := [demoCard 1 RED NUMBER (Some 1), demoCard 2 RED DRAW_TWO None],
          aiComment := ''p1 played RED DRAW_TWO''\<rparr>, [])"
    by (simp add: play_defs drawTwoState_def demo_defs)
  have nt: "currentPlayerIndex (nextTurn drawTwoState) = 1"
    by (simp add: play_defs drawTwoState_def demo_defs)
  have ci: "currentPlayerIndex drawTwoState = 0"
    by (simp add: drawTwoState_def demo_defs)
  show ?thesis
    using draw_card_effect [OF a b c d e f g h, of None] ev nt ci by blast
qed

text \<open>
  The claim as first stated promises exactly two cards in every state. With an empty deck
  and a single card under the (valid) draw two, the next player receives that one card
  only.
\<close>

theorem draw_two_from_exhausted_deck:
  "isValidMove (demoCard 2 RED DRAW_TWO None) (last (discardPile emptyDeckState))
       (currentColor emptyDeckState)
   \<and> finalizeMove (demoEnv LOCAL False) emptyDeckState (demoCard 2 RED DRAW_TWO None) 0 None None
     = Some (emptyDeckState\<lparr>
          players := [demoPlayer ''p1'' [demoCard 3 RED NUMBER (Some 5)],
                      demoPlayer ''p2'' [demoCard 7 BLUE NUMBER (Some 7),
                                        demoCard 1 RED NUMBER (Some 3)]],
          discardPile := [demoCard 2 RED DRAW_TWO None],
          aiComment := ''p1 played RED DRAW_TWO''\<rparr>, [])
   \<and> hand (players emptyDeckState ! 1) = [demoCard 7 BLUE NUMBER (Some 7)]"
  by (simp add: play_defs isValidMove_def emptyDeckState_def demo_defs)

section \<open>Card conservation\<close>

subsection \<open>Each operation keeps the cards\<close>

text \<open>
  Draws, the resolution of an effect, the round setup and the draw handlers keep the
  cards of deck, discard pile and hands as a multiset. So does \<^verbatim>\<open>finalizeMove\<close> when
  the card it is given is the card at the given position of the current player's hand.
\<close>

lemma hands_update:
  "i < length ps \<Longrightarrow>
     mset (concat (map hand (ps[i := q]))) + mset (hand (ps ! i))
       = mset (concat (map hand ps)) + mset (hand q)"
proof (induction ps arbitrary: i)
  case Nil
  then show ?case by simp
next
  case (Cons a ps)
  then show ?case by (cases i) (simp_all add: ac_simps)
qed

lemma hands_update_same:
  "i < length ps \<Longrightarrow> hand q = hand (ps ! i) \<Longrightarrow>
     mset (concat (map hand (ps[i := q]))) = mset (concat (map hand ps))"
  using hands_update[of i ps q] by simp

lemma mset_butlast_last: "xs \<noteq> [] \<Longrightarrow> mset (butlast xs) + {#last xs#} = mset xs"
  by (metis append_butlast_last_id mset.simps(1) mset.simps(2) mset_append union_mset_add_mset_right add.right_neutral)

lemma mset_take_drop: "mset (take n xs) + mset (drop n xs) = mset xs"
  by (metis append_take_drop_id mset_append)

lemma mset_splice1:
  "index < length xs \<Longrightarrow> mset (splice1 index xs) + {#xs ! index#} = mset xs"
  unfolding splice1_def
  by (metis Cons_nth_drop_Suc append_take_drop_id mset.simps(2) mset_append union_mset_add_mset_right add.right_neutral)

lemma allCards_nextTurn [simp]: "allCards (nextTurn s) = allCards s"
  by (simp add: allCards_def)

lemma allCards_aiComment [simp]: "allCards (s\<lparr>aiComment := x\<rparr>) = allCards s"
  by (simp add: allCards_def)

lemma allCards_currentColor [simp]: "allCards (s\<lparr>currentColor := x\<rparr>) = allCards s"
  by (simp add: allCards_def)

lemma drawCards_conserves:
  assumes re: "reorders recycle"
    and dc: "drawCards recycle v n s = Some s'"
  shows "mset (allCards s') = mset (allCards s)"
proof -
  define pool where "pool = (if length (deck s) < n \<and> 1 < length (discardPile s)
                             then deck s @ recycle (butlast (discardPile s)) else deck s)"
  define pile where "pile = (if length (deck s) < n \<and> 1 < length (discardPile s)
                             then [last (discardPile s)] else discardPile s)"
  have pp: "mset pool + mset pile = mset (deck s) + mset (discardPile s)"
  proof (cases "length (deck s) < n \<and> 1 < length (discardPile s)")
    case True
    then have "discardPile s \<noteq> []" by auto
    then have "mset (butlast (discardPile s)) + {#last (discardPile s)#} = mset (discardPile s)"
      by (rule mset_butlast_last)
    moreover have "mset (recycle (butlast (discardPile s))) = mset (butlast (discardPile s))"
      using re by (simp add: reorders_def)
    ultimately show ?thesis using True by (simp add: pool_def pile_def)
  next
    case False
    show ?thesis by (simp only: pool_def pile_def False if_False)
  qed
  show ?thesis
  proof (cases "players_at (players s) v")
    case (Some q)
    have iv: "nat v < length (players s)" "players s ! nat v = q"
      using players_at_SomeD[OF Some] by simp_all
    have s': "s' = s\<lparr>deck := drop n pool,
             players := (players s)[nat v := q\<lparr>hand := hand q @ take n pool\<rparr>],
             discardPile := pile\<rparr>"
      using dc drawCards_valid[OF Some, of recycle n] by (simp add: pool_def pile_def)
    have "mset (concat (map hand ((players s)[nat v := q\<lparr>hand := hand q @ take n pool\<rparr>])))
            + mset (hand q)
          = mset (concat (map hand (players s))) + mset (hand q) + mset (take n pool)"
      using hands_update[OF iv(1), of "q\<lparr>hand := hand q @ take n pool\<rparr>"] iv(2)
      by (simp add: ac_simps)
    then have h: "mset (concat (map hand ((players s)[nat v := q\<lparr>hand := hand q @ take n pool\<rparr>])))
          = mset (concat (map hand (players s))) + mset (take n pool)"
      by simp
    have "mset (allCards s') = mset (drop n pool) + mset pile
            + (mset (concat (map hand (players s))) + mset (take n pool))"
      by (simp add: s' allCards_def h)
    also have "\<dots> = (mset (take n pool) + mset (drop n pool)) + mset pile
            + mset (concat (map hand (players s)))"
      by (simp add: ac_simps)
    also have "\<dots> = mset (allCards s)"
      by (simp add: mset_take_drop pp allCards_def)
    finally show ?thesis .
  next
    case None
    have split: "(if length (deck s) < n \<and> 1 < length (discardPile s)
            then (deck s @ recycle (butlast (discardPile s)), [last (discardPile s)])
            else (deck s, discardPile s)) = (pool, pile)"
      by (simp add: pool_def pile_def)
    have "s' = s\<lparr>deck := pool, discardPile := pile\<rparr>"
      using dc None unfolding drawCards_def split
      by (simp add: Let_def split: if_splits)
    then show ?thesis using pp by (simp add: allCards_def)
  qed
qed

lemma handleCardEffect_conserves:
  assumes re: "reorders recycle"
    and hc: "handleCardEffect recycle c s = Some s'"
  shows "mset (allCards s') = mset (allCards s)"
proof -
  define ns where "ns = (if color c \<noteq> BLACK then s\<lparr>currentColor := color c\<rparr> else s)"
  have ns: "allCards ns = allCards s" by (simp add: ns_def)
  have dir: "allCards (ns\<lparr>direction := x\<rparr>) = allCards ns" for x
    by (simp add: allCards_def)
  show ?thesis
  proof (cases "type c")
    case DRAW_TWO
    then obtain sd where "drawCards recycle (victimIndex ns) 2 ns = Some sd" "s' = nextTurn sd"
      using hc by (auto simp: handleCardEffect_def Let_def ns_def[symmetric] split: option.splits)
    then show ?thesis using drawCards_conserves[OF re] ns by simp
  next
    case WILD_DRAW_FOUR
    then obtain sd where "drawCards recycle (victimIndex ns) 4 ns = Some sd" "s' = nextTurn sd"
      using hc by (auto simp: handleCardEffect_def Let_def ns_def[symmetric] split: option.splits)
    then show ?thesis using drawCards_conserves[OF re] ns by simp
  next
    case REVERSE
    then show ?thesis
      using hc ns dir by (auto simp: handleCardEffect_def Let_def ns_def[symmetric] split: if_splits)
  qed (use hc ns in \<open>auto simp: handleCardEffect_def Let_def ns_def[symmetric]\<close>)
qed


lemma finalizeMove_conserves:
  assumes re: "reorders (recycleOrder env)"
    and cur: "cur = (case stateOverride of Some s \<Rightarrow> s | None \<Rightarrow> gameState)"
    and pl: "players_at (players cur) (currentPlayerIndex cur) = Some p"
    and ix: "index < length (hand p)"
    and fm: "finalizeMove env gameState (hand p ! index) index chosenWildColor stateOverride
               = Some (s', msgs)"
  shows "mset (allCards s') =
           mset (allCards (if gameMode env = ONLINE \<and> \<not> isHost env then gameState else cur))"
proof (cases "gameMode env = ONLINE \<and> \<not> isHost env")
  case True
  then show ?thesis using fm by (simp add: finalizeMove_def)
next
  case False
  let ?c = "hand p ! index"
  let ?i = "currentPlayerIndex cur"
  let ?pl = "p\<lparr>hand := splice1 index (hand p)\<rparr>"
  let ?s2 = "cur\<lparr>players := (players cur)[nat ?i := ?pl],
                    discardPile := discardPile cur @ [?c],
                    currentColor := (case chosenWildColor of
                        Some k \<Rightarrow> if color ?c = BLACK then k else currentColor cur
                      | None \<Rightarrow> currentColor cur)\<rparr>"
  have idx: "nat ?i < length (players cur)" "players cur ! nat ?i = p"
    using players_at_SomeD[OF pl] by simp_all
  have "mset (concat (map hand ((players cur)[nat ?i := ?pl]))) + mset (hand p)
          = mset (concat (map hand (players cur))) + mset (splice1 index (hand p))"
    using hands_update[OF idx(1), of ?pl] idx(2) by simp
  also have "mset (hand p) = mset (splice1 index (hand p)) + {#?c#}"
    using mset_splice1[OF ix] by simp
  finally have h: "mset (concat (map hand ((players cur)[nat ?i := ?pl]))) + {#?c#}
          = mset (concat (map hand (players cur)))"
    by simp
  have s2: "mset (allCards ?s2) = mset (allCards cur)"
    using h by (simp add: allCards_def)
  obtain s3 where pc: "playComment env ?c ?i ?pl ?s2 = Some s3"
  proof (cases "playComment env ?c ?i ?pl ?s2")
    case None
    have eq: "(case chosenWildColor of
               Some k \<Rightarrow> if color ?c = BLACK then s1\<lparr>currentColor := k\<rparr> else s1
             | None \<Rightarrow> s1)
            = s1\<lparr>currentColor := (case chosenWildColor of
                        Some k \<Rightarrow> if color ?c = BLACK then k else currentColor s1
                      | None \<Rightarrow> currentColor s1)\<rparr>" for s1 :: GameState
      by (simp split: option.splits)
    have "finalizeMove env gameState ?c index chosenWildColor stateOverride = None"
      using False pl None unfolding finalizeMove_def cur[symmetric] Let_def eq
      by (auto split: option.splits)
    with fm show ?thesis by simp
  next
    case (Some s3)
    then show ?thesis by (rule that)
  qed
  have s3: "s3 = ?s2\<lparr>aiComment := aiComment s3\<rparr>"
    using pc by (rule playComment_result)
  have a3: "mset (allCards s3) = mset (allCards cur)"
    using s2 by (subst s3) simp
  have p3: "players s3 = (players cur)[nat ?i := ?pl]"
    by (subst s3) simp
  note ap = finalizeMove_applied[OF False cur pl pc]
  show ?thesis
  proof (cases "splice1 index (hand p) = []")
    case True
    then have s': "s' = finishRound env ?i ?pl s3"
      using ap fm by simp
    have "hand (?pl\<lparr>score := x\<rparr>) = hand (players s3 ! nat ?i)" for x
      using idx by (simp add: p3)
    moreover have "nat ?i < length (players s3)" using idx by (simp add: p3)
    ultimately have "mset (concat (map hand ((players s3)[nat ?i := ?pl\<lparr>score := x\<rparr>])))
          = mset (concat (map hand (players s3)))" for x
      by (intro hands_update_same)
    then have "mset (allCards (finishRound env ?i ?pl s3)) = mset (allCards s3)"
      by (simp add: finishRound_def Let_def allCards_def)
    then show ?thesis using False a3 s' by auto
  next
    case ne: False
    then obtain s4 where hc: "handleCardEffect (recycleOrder env) ?c s3 = Some s4"
      and s': "s' = nextTurn s4"
      using ap fm by (auto split: option.splits)
    have "mset (allCards s4) = mset (allCards s3)"
      using handleCardEffect_conserves[OF re hc] .
    then show ?thesis using False a3 s' by auto
  qed
qed

lemma handleHumanDraw_conserves:
  assumes re: "reorders (recycleOrder env)"
    and hd: "handleHumanDraw env s = Some (s', msgs)"
  shows "mset (allCards s') = mset (allCards s)"
proof -
  have "s' = s \<or> (\<exists>s1 x. drawCards (recycleOrder env) (currentPlayerIndex s) 1 s = Some s1
                      \<and> s' = nextTurn (s1\<lparr>aiComment := x\<rparr>))"
    using hd by (auto simp: handleHumanDraw_def Let_def split: if_splits option.splits)
  then show ?thesis using drawCards_conserves[OF re] by auto
qed

lemma handleMultiplayerDraw_conserves:
  assumes re: "reorders (recycleOrder env)"
    and hd: "handleMultiplayerDraw env s i = Some (s', msgs)"
  shows "mset (allCards s') = mset (allCards s)"
proof -
  have "\<exists>s1 x. drawCards (recycleOrder env) (int i) 1 s = Some s1
                      \<and> s' = nextTurn (s1\<lparr>aiComment := x\<rparr>)"
    using hd by (auto simp: handleMultiplayerDraw_def Let_def split: option.splits)
  then show ?thesis using drawCards_conserves[OF re] by auto
qed

lemma lastOpt_Some: "lastOpt xs = Some x \<Longrightarrow> xs \<noteq> [] \<and> x = xs ! (length xs - 1)"
  by (auto simp: lastOpt_def last_conv_nth split: if_splits)

lemma drawCards_index:
  "drawCards recycle v n s = Some s' \<Longrightarrow> currentPlayerIndex s' = currentPlayerIndex s"
  by (auto simp: drawCards_def Let_def split: if_splits option.splits prod.splits)

lemma handleAiDraw_conserves:
  assumes re: "reorders (recycleOrder env)"
    and hd: "handleAiDraw env s = Some (s', msgs)"
  shows "mset (allCards s') = mset (allCards s)"
proof -
  obtain sd where dc: "drawCards (recycleOrder env) (currentPlayerIndex s) 1 s = Some sd"
    using hd by (auto simp: handleAiDraw_def split: option.splits)
  have ci: "currentPlayerIndex sd = currentPlayerIndex s"
    using dc by (rule drawCards_index)
  obtain player where pl: "players_at (players sd) (currentPlayerIndex s) = Some player"
    using hd dc by (auto simp: handleAiDraw_def split: option.splits)
  obtain drawnCard where lo: "lastOpt (hand player) = Some drawnCard"
    using hd dc pl by (auto simp: handleAiDraw_def split: option.splits)
  obtain valid where iv: "isValidMoveAt drawnCard (lastOpt (discardPile sd)) (currentColor sd) = Some valid"
    using hd dc pl lo by (auto simp: handleAiDraw_def split: option.splits)
  have sd: "mset (allCards sd) = mset (allCards s)"
    using drawCards_conserves[OF re dc] .
  let ?ov = "sd\<lparr>aiComment := randomText env\<rparr>"
  show ?thesis
  proof (cases valid)
    case True
    have fm: "finalizeMove env s (hand player ! (length (hand player) - 1)) (length (hand player) - 1)
                 (if color drawnCard = BLACK then Some (pickWildColor (hand player)) else None)
                 (Some ?ov) = Some (s', msgs)"
      using hd dc pl lo iv True lastOpt_Some[OF lo] by (simp add: handleAiDraw_def)
    have cur: "?ov = (case Some ?ov of Some s \<Rightarrow> s | None \<Rightarrow> s)" by simp
    have pl': "players_at (players ?ov) (currentPlayerIndex ?ov) = Some player"
      using pl ci by simp
    have ix: "length (hand player) - 1 < length (hand player)"
      using lastOpt_Some[OF lo] by (cases "hand player") auto
    have "mset (allCards s') =
           mset (allCards (if gameMode env = ONLINE \<and> \<not> isHost env then s else ?ov))"
      using finalizeMove_conserves[OF re cur pl' ix fm] .
    then show ?thesis using sd by (simp split: if_splits)
  next
    case False
    then have "s' = nextTurn ?ov"
      using hd dc pl lo iv by (simp add: handleAiDraw_def)
    then show ?thesis using sd by simp
  qed
qed

subsection \<open>The round setup\<close>

lemma flipStart_conserves:
  assumes "flipStart c d = Some r"
  shows "mset (fst r # snd r) = mset (c # d)"
proof (rule flipStart.raw_induct
    [where P = "\<lambda>c d r. mset (fst r # snd r) = mset (c # d)", OF _ assms])
  fix f :: "Card \<Rightarrow> Card list \<Rightarrow> (Card \<times> Card list) option"
    and startCard d r
  assume IH: "\<And>x rest y. f x rest = Some y \<Longrightarrow> mset (fst y # snd y) = mset (x # rest)"
    and eq: "(if type startCard = WILD_DRAW_FOUR
              then case d @ [startCard] of [] \<Rightarrow> None | x # rest \<Rightarrow> f x rest
              else Some (startCard, d)) = Some r"
  show "mset (fst r # snd r) = mset (startCard # d)"
  proof (cases "type startCard = WILD_DRAW_FOUR")
    case True
    obtain x rest where xr: "d @ [startCard] = x # rest"
      by (cases "d @ [startCard]") auto
    from eq have "f x rest = Some r" unfolding xr by (simp add: True)
    then have "mset (fst r # snd r) = mset (x # rest)" by (rule IH)
    also have "\<dots> = mset (d @ [startCard])" by (simp only: xr)
    finally show ?thesis by simp
  next
    case False
    with eq show ?thesis by auto
  qed
qed

lemma flipStart_steps:
  assumes "\<forall>w\<in>set ws. type w = WILD_DRAW_FOUR" and "type x \<noteq> WILD_DRAW_FOUR"
    and "c # d = ws @ x # rest"
  shows "flipStart c d = Some (x, rest @ ws)"
  using assms
proof (induction ws arbitrary: c d rest)
  case Nil
  then show ?case by (simp add: flipStart.simps)
next
  case (Cons w ws)
  then have cw: "c = w" "d = ws @ x # rest" "type w = WILD_DRAW_FOUR" by auto
  obtain y r where yr: "d @ [c] = y # r" by (cases "d @ [c]") auto
  then have "y # r = ws @ x # (rest @ [w])" using cw by simp
  moreover have "\<forall>w\<in>set ws. type w = WILD_DRAW_FOUR" using Cons.prems(1) by simp
  ultimately have "flipStart y r = Some (x, (rest @ [w]) @ ws)"
    using Cons.IH Cons.prems(2) by blast
  moreover have "flipStart c d = flipStart y r"
    by (subst flipStart.simps) (simp add: cw(3)[unfolded cw(1)[symmetric]] yr)
  ultimately show ?case by simp
qed

lemma flipStart_total:
  assumes "\<exists>x\<in>set (c # d). type x \<noteq> WILD_DRAW_FOUR"
  shows "\<exists>r. flipStart c d = Some r"
proof -
  from assms obtain ws x rest where "c # d = ws @ x # rest" "type x \<noteq> WILD_DRAW_FOUR"
    "\<forall>w\<in>set ws. \<not> type w \<noteq> WILD_DRAW_FOUR"
    using split_list_first_prop[of "c # d" "\<lambda>x. type x \<noteq> WILD_DRAW_FOUR"] by blast
  then show ?thesis using flipStart_steps[of ws x c d rest] by auto
qed

lemma deal_conserves:
  "deal ps d = (ps', d') \<Longrightarrow> mset (concat (map hand ps')) + mset d' = mset d"
proof (induction ps arbitrary: d ps' d')
  case Nil
  then show ?case by simp
next
  case (Cons p ps)
  obtain qs e where de: "deal ps (drop 7 d) = (qs, e)" by (cases "deal ps (drop 7 d)")
  then have "mset (concat (map hand qs)) + mset e = mset (drop 7 d)" by (rule Cons.IH)
  moreover have "ps' = p\<lparr>hand := take 7 d\<rparr> # qs" "d' = e"
    using Cons.prems de by simp_all
  ultimately have "mset (concat (map hand ps')) + mset d' = mset (take 7 d) + mset (drop 7 d)"
    by (simp add: ac_simps)
  then show ?case by (simp only: mset_take_drop)
qed

lemma deal_hands:
  "deal ps d = (ps', d') \<Longrightarrow> length ps' = length ps \<and> d' = drop (7 * length ps) d"
proof (induction ps arbitrary: d ps' d')
  case Nil
  then show ?case by simp
next
  case (Cons p ps)
  obtain qs e where de: "deal ps (drop 7 d) = (qs, e)" by (cases "deal ps (drop 7 d)")
  then have "length qs = length ps \<and> e = drop (7 * length ps) (drop 7 d)" by (rule Cons.IH)
  moreover have "ps' = p\<lparr>hand := take 7 d\<rparr> # qs" "d' = e"
    using Cons.prems de by simp_all
  ultimately show ?case by (simp add: add.commute)
qed

lemma setupRound_conserves:
  assumes "setupRound env playersConfig startPlayerIndex = Some s"
  shows "mset (allCards s) = mset orderedDeck"
proof -
  from assms obtain c0 d0 startCard d1 ps d2 where
    cd: "createDeck (mathRandom env) = c0 # d0"
    and fs: "flipStart c0 d0 = Some (startCard, d1)"
    and dl: "deal playersConfig d1 = (ps, d2)"
    and s: "deck s = d2" "discardPile s = [startCard]" "players s = ps"
    by (auto simp: setupRound_def split: list.splits option.splits prod.splits)
  have "mset (allCards s) = mset d2 + {#startCard#} + mset (concat (map hand ps))"
    by (simp add: allCards_def s)
  also have "\<dots> = mset (startCard # d1)"
    using deal_conserves[OF dl] by (simp add: ac_simps)
  also have "\<dots> = mset (c0 # d0)"
    using flipStart_conserves[OF fs] by simp
  also have "\<dots> = mset orderedDeck"
    using mset_createDeck[of "mathRandom env"] by (simp only: cd)
  finally show ?thesis .
qed

lemma startMultiplayerMatch_conserves:
  assumes "isHost env" and "startMultiplayerMatch env gameState resetScores = Some (s, msgs)"
  shows "mset (allCards s) = mset orderedDeck"
proof -
  from assms obtain ps0 c0 d0 startCard d1 ps d2 where
    cd: "createDeck (mathRandom env) = c0 # d0"
    and fs: "flipStart c0 d0 = Some (startCard, d1)"
    and dl: "deal ps0 d1 = (ps, d2)"
    and s: "deck s = d2" "discardPile s = [startCard]" "players s = ps"
    by (auto simp: startMultiplayerMatch_def Let_def split: list.splits option.splits prod.splits)
  have "mset (allCards s) = mset d2 + {#startCard#} + mset (concat (map hand ps))"
    by (simp add: allCards_def s)
  also have "\<dots> = mset (startCard # d1)"
    using deal_conserves[OF dl] by (simp add: ac_simps)
  also have "\<dots> = mset (c0 # d0)"
    using flipStart_conserves[OF fs] by simp
  also have "\<dots> = mset orderedDeck"
    using mset_createDeck[of "mathRandom env"] by (simp only: cd)
  finally show ?thesis .
qed

subsection \<open>Plays and draws always complete\<close>

lemma handleCardEffect_total:
  assumes "players s \<noteq> []"
  shows "\<exists>s'. handleCardEffect recycle c s = Some s'"
proof -
  define ns where "ns = (if color c \<noteq> BLACK then s\<lparr>currentColor := color c\<rparr> else s)"
  have "players ns \<noteq> []" using assms by (simp add: ns_def)
  then have "0 \<le> victimIndex ns \<and> victimIndex ns < int (length (players ns))"
    unfolding victimIndex_nextTurn by (rule nextTurn_in_range)
  then obtain q where "players_at (players ns) (victimIndex ns) = Some q"
    by (simp add: players_at_def)
  then have "\<exists>sd. drawCards recycle (victimIndex ns) n ns = Some sd" for n
    using drawCards_valid by blast
  then show ?thesis
    by (cases "type c") (auto simp: handleCardEffect_def Let_def ns_def[symmetric] split: option.splits)
qed

lemma finalizeMove_total:
  assumes cur: "cur = (case stateOverride of Some s \<Rightarrow> s | None \<Rightarrow> gameState)"
    and two: "2 \<le> length (players cur)"
    and pl: "players_at (players cur) (currentPlayerIndex cur) = Some p"
  shows "\<exists>s' msgs. finalizeMove env gameState c index chosenWildColor stateOverride = Some (s', msgs)"
proof (cases "gameMode env = ONLINE \<and> \<not> isHost env")
  case True
  then show ?thesis by (simp add: finalizeMove_def)
next
  case False
  let ?i = "currentPlayerIndex cur"
  let ?pl = "p\<lparr>hand := splice1 index (hand p)\<rparr>"
  let ?s2 = "cur\<lparr>players := (players cur)[nat ?i := ?pl],
                    discardPile := discardPile cur @ [c],
                    currentColor := (case chosenWildColor of
                        Some k \<Rightarrow> if color c = BLACK then k else currentColor cur
                      | None \<Rightarrow> currentColor cur)\<rparr>"
  have "2 \<le> length (players ?s2)" using two by simp
  then obtain s3 where pc: "playComment env c ?i ?pl ?s2 = Some s3"
    using playComment_total by blast
  then have s3: "s3 = ?s2\<lparr>aiComment := aiComment s3\<rparr>"
    by (rule playComment_result)
  have "players s3 = (players cur)[nat ?i := ?pl]"
    by (subst s3) simp
  then have "players s3 \<noteq> []" using two by auto
  then obtain s4 where "handleCardEffect (recycleOrder env) c s3 = Some s4"
    using handleCardEffect_total by blast
  then show ?thesis
    using finalizeMove_applied[OF False cur pl pc] by simp
qed

lemma orderedDeck_has_start: "\<exists>x\<in>set orderedDeck. type x \<noteq> WILD_DRAW_FOUR"
  by code_simp

lemma flipStart_createDeck:
  assumes "createDeck rnd = c0 # d0"
  shows "\<exists>startCard d1. flipStart c0 d0 = Some (startCard, d1) \<and> length d1 = 107"
proof -
  have "set (c0 # d0) = set orderedDeck"
    using mset_createDeck[of rnd] assms by (metis mset_eq_setD)
  then have "\<exists>x\<in>set (c0 # d0). type x \<noteq> WILD_DRAW_FOUR"
    using orderedDeck_has_start by simp
  then obtain r where r: "flipStart c0 d0 = Some r"
    using flipStart_total by blast
  have "mset (fst r # snd r) = mset orderedDeck"
    using flipStart_conserves[OF r] mset_createDeck[of rnd] assms by simp
  then have "length (fst r # snd r) = 108"
    using length_orderedDeck by (metis mset_eq_length)
  then show ?thesis using r by (cases r) auto
qed

lemma setupRound_two_players:
  "\<exists>s startCard d1. setupRound env [a, b] i = Some s
     \<and> length d1 = 107
     \<and> players s = [a\<lparr>hand := take 7 d1\<rparr>, b\<lparr>hand := take 7 (drop 7 d1)\<rparr>]
     \<and> deck s = drop 14 d1 \<and> discardPile s = [startCard]
     \<and> currentPlayerIndex s = i \<and> direction s = 1 \<and> status s = PLAYING"
proof -
  have "length (createDeck (mathRandom env)) = 108"
    using mset_createDeck[of "mathRandom env"] length_orderedDeck by (metis mset_eq_length)
  then obtain c0 d0 where cd: "createDeck (mathRandom env) = c0 # d0"
    by (cases "createDeck (mathRandom env)") auto
  then obtain startCard d1 where fs: "flipStart c0 d0 = Some (startCard, d1)" "length d1 = 107"
    using flipStart_createDeck by blast
  show ?thesis
    using cd fs
    by (intro exI[of _ "the (setupRound env [a, b] i)"] exI[of _ startCard] exI[of _ d1])
       (simp add: setupRound_def)
qed

subsection \<open>The colour picker after a round won with a wild card\<close>

text \<open>
  A play that empties the hand leaves the pending wild card of the colour picker set.
\<close>

lemma winning_play_keeps_pending:
  assumes "cur = (case stateOverride of Some s \<Rightarrow> s | None \<Rightarrow> gameState)"
    and "players_at (players cur) (currentPlayerIndex cur) = Some p"
    and "splice1 index (hand p) = []"
  shows "\<not> clearsPendingWildCard env gameState c index chosenWildColor stateOverride"
  using assms(2,3) unfolding clearsPendingWildCard_def assms(1)[symmetric]
  by (simp add: Let_def)

text \<open>
  Claim C1 at a state the program reaches. In a match against the computer the human
  player has won a round with the wild card card-100, so that card is still pending. The
  next round is set up with the computer to start, and the human player is dealt
  card-100 again. The round as set up holds 108 cards with distinct ids. The colour
  picker is on the screen; the human player picks blue while it is the computer's turn
  (the computer's turn has set the thinking flag by then).
  \<^verbatim>\<open>handleColorPick\<close> finds card-100 at position 0 of the human player's hand and
  \<^verbatim>\<open>finalizeMove\<close> appends it to the discard pile, but splices position 0 out of the
  hand of the current player, the computer: card-100 is now in the human player's hand
  and on the discard pile, and card-8 is in no pile and no hand.
\<close>

theorem stale_colour_pick_breaks_conservation:
  "case setupRound aiRoundEnv aiRoundPlayers 1 of
     None \<Rightarrow> False
   | Some s0 \<Rightarrow>
       currentPlayerIndex s0 = 1
       \<and> length (allCards s0) = 108
       \<and> distinct (map card_id (allCards s0))
       \<and> map (map card_id \<circ> hand) (players s0)
           = [[''card-100'', ''card-2'', ''card-3'', ''card-4'', ''card-5'', ''card-6'', ''card-7''],
              [''card-8'', ''card-9'', ''card-10'', ''card-11'', ''card-12'', ''card-13'',
               ''card-14'']]
       \<and> map card_id (discardPile s0) = [''card-0'']
       \<and> (case handleColorPick aiRoundEnv (s0\<lparr>isAiThinking := True\<rparr>) (Some leftOverWild) BLUE of
             None \<Rightarrow> False
           | Some (s1, msgs) \<Rightarrow>
               map (map card_id \<circ> hand) (players s1)
                 = [[''card-100'', ''card-2'', ''card-3'', ''card-4'', ''card-5'', ''card-6'',
                     ''card-7''],
                    [''card-9'', ''card-10'', ''card-11'', ''card-12'', ''card-13'', ''card-14'']]
               \<and> map card_id (discardPile s1) = [''card-0'', ''card-100'']
               \<and> deck s1 = deck s0
               \<and> \<not> distinct (map card_id (allCards s1))
               \<and> ''card-8'' \<notin> set (map card_id (allCards s1)))"
  by code_simp

end
